theory Spec2Isabelle
  imports Complex_Main
begin

section \<open>JavaScript values\<close>

text \<open>
  The gateway is an Express application whose handlers receive parsed JSON and hand
  object literals to \<^verbatim>\<open>res.json\<close>. Values are dynamically typed; an object is an
  association list from property names to values, read with \<open>getprop\<close>, which yields
  \<open>JUndefined\<close> for an absent property as a JavaScript property read does. A parsed
  object has one value for each of its keys. Numbers are kept exact, as rationals; the
  handlers do no arithmetic on them beyond testing for zero.
\<close>

datatype jsval =
    JUndefined
  | JNull
  | JBool bool
  | JNum rat
  | JStr string
  | JArr "jsval list"
  | JObj "(string \<times> jsval) list"

type_synonym jsobj = "(string \<times> jsval) list"

text \<open>The falsy values are undefined, null, false, 0 and the empty string.\<close>

fun truthy :: "jsval \<Rightarrow> bool" where
  "truthy JUndefined = False"
| "truthy JNull = False"
| "truthy (JBool b) = b"
| "truthy (JNum n) = (n \<noteq> 0)"
| "truthy (JStr s) = (s \<noteq> [])"
| "truthy (JArr xs) = True"
| "truthy (JObj fs) = True"

definition getprop :: "jsobj \<Rightarrow> string \<Rightarrow> jsval" where
  "getprop obj k = (case map_of obj k of None \<Rightarrow> JUndefined | Some v \<Rightarrow> v)"

text \<open>\<^verbatim>\<open>a || b\<close>\<close>

definition js_or :: "jsval \<Rightarrow> jsval \<Rightarrow> jsval" where
  "js_or a b = (if truthy a then a else b)"

text \<open>An exception or error object, represented by its \<^verbatim>\<open>message\<close>.\<close>

datatype js_error = Error (message: string)

text \<open>
  \<^verbatim>\<open>v.k\<close> on an arbitrary value: reading a property of undefined or null throws a
  TypeError (the two messages are the runtime's); reading a property of a primitive that
  lacks it gives undefined.
\<close>

definition undefined_read :: "string \<Rightarrow> js_error" where
  "undefined_read k =
     Error (''Cannot read properties of undefined (reading '' @ [CHR 0x27] @ k @ [CHR 0x27] @ '')'')"

definition null_read :: "string \<Rightarrow> js_error" where
  "null_read k =
     Error (''Cannot read properties of null (reading '' @ [CHR 0x27] @ k @ [CHR 0x27] @ '')'')"

definition member :: "jsval \<Rightarrow> string \<Rightarrow> js_error + jsval" where
  "member v k =
     (case v of
        JUndefined \<Rightarrow> Inl (undefined_read k)
      | JNull \<Rightarrow> Inl (null_read k)
      | JObj fs \<Rightarrow> Inr (getprop fs k)
      | _ \<Rightarrow> Inr JUndefined)"

text \<open>\<^verbatim>\<open>v?.k\<close>\<close>

definition opt_member :: "jsval \<Rightarrow> string \<Rightarrow> jsval" where
  "opt_member v k = (case v of JObj fs \<Rightarrow> getprop fs k | _ \<Rightarrow> JUndefined)"

section \<open>The external service as seen through its client\<close>

text \<open>
  A query is what the chained builder calls \<^verbatim>\<open>from(t).select(c).eq(k, v).order(k).limit(n)\<close>
  accumulate before the request is awaited.
\<close>

datatype column = AllColumns | Column string | Embedded string "string list"

record query =
  tbl :: string
  columns :: "column list"
  filters :: "(string \<times> jsval) list"
  ordering :: "string option"
  row_limit :: "nat option"

definition from_q :: "string \<Rightarrow> query" where
  "from_q t = \<lparr>tbl = t, columns = [], filters = [], ordering = None, row_limit = None\<rparr>"

definition select_q :: "column list \<Rightarrow> query \<Rightarrow> query" where
  "select_q cs q = q\<lparr>columns := cs\<rparr>"

definition eq_q :: "string \<Rightarrow> jsval \<Rightarrow> query \<Rightarrow> query" where
  "eq_q k v q = q\<lparr>filters := filters q @ [(k, v)]\<rparr>"

definition order_q :: "string \<Rightarrow> query \<Rightarrow> query" where
  "order_q k q = q\<lparr>ordering := Some k\<rparr>"

definition limit_q :: "nat \<Rightarrow> query \<Rightarrow> query" where
  "limit_q n q = q\<lparr>row_limit := Some n\<rparr>"

text \<open>
  Awaiting a request either rejects (the exception reaches the handler's \<^verbatim>\<open>catch\<close>) or
  fulfils with the pair \<^verbatim>\<open>{ data, error }\<close> that the handlers destructure. Both members
  are nullable, so all four combinations are representable.
\<close>

datatype 'a promise = Rejected js_error | Fulfilled 'a

datatype 'a reply = Reply (data: "'a option") (error: "js_error option")

text \<open>
  The auth calls answer \<^verbatim>\<open>{ data: { user, session }, error }\<close>; user and session are
  objects or null.
\<close>

datatype auth_reply = AuthReply (user: "jsobj option") (session: jsval) (auth_error: "js_error option")

text \<open>Every request a handler can send, recorded in the order sent.\<close>

datatype call =
    AwaitRows query
  | AwaitSingle query
  | AwaitInsert string jsobj
  | SignUp jsval jsval jsobj
  | SignInWithPassword jsval jsval
  | GetUser string
  | SignOut string

text \<open>
  The client is a module-level constant created at start-up. Its behaviour is not part of
  the repository, so it is a parameter: one answer per request.
\<close>

record supabase_client =
  await_rows :: "query \<Rightarrow> jsobj list reply promise"
  await_single :: "query \<Rightarrow> jsobj reply promise"
  await_insert :: "string \<Rightarrow> jsobj \<Rightarrow> jsobj reply promise"
  auth_signUp :: "jsval \<Rightarrow> jsval \<Rightarrow> jsobj \<Rightarrow> auth_reply promise"
  auth_signInWithPassword :: "jsval \<Rightarrow> jsval \<Rightarrow> auth_reply promise"
  auth_getUser :: "string \<Rightarrow> auth_reply promise"
  auth_signOut :: "string \<Rightarrow> unit promise"

text \<open>
  What a handler can read besides its request: \<^verbatim>\<open>process.env.NODE_ENV\<close>, the client,
  and the clock (\<^verbatim>\<open>new Date().toISOString()\<close>, \<^verbatim>\<open>Date.now()\<close>, \<^verbatim>\<open>process.uptime()\<close>).
\<close>

record globals =
  NODE_ENV :: "string option"
  supabase :: supabase_client
  now_iso :: string
  date_now :: nat
  uptime :: rat

text \<open>
  The outcome of handling one request: the status and the object given to
  \<^verbatim>\<open>res.json\<close>, and the requests sent to the external service on the way.
\<close>

record served =
  status :: nat
  body :: jsobj
  calls :: "call list"

definition respond :: "nat \<Rightarrow> jsobj \<Rightarrow> call list \<Rightarrow> served" where
  "respond s b cs = \<lparr>status = s, body = b, calls = cs\<rparr>"

section \<open>Message texts that are not ASCII\<close>

definition msg_codigo_invalido :: string where
  "msg_codigo_invalido =
     ''C'' @ [CHR 0xC3, CHR 0xB3] @ ''digo de instituci'' @ [CHR 0xC3, CHR 0xB3] @ ''n inv''
      @ [CHR 0xC3, CHR 0xA1] @ ''lido''"

definition msg_email_registrado :: string where
  "msg_email_registrado = ''El email ya est'' @ [CHR 0xC3, CHR 0xA1] @ '' registrado''"

definition msg_email_password_requeridos :: string where
  "msg_email_password_requeridos =
     ''Email y contrase'' @ [CHR 0xC3, CHR 0xB1] @ ''a son requeridos''"

definition msg_credenciales_invalidas :: string where
  "msg_credenciales_invalidas = ''Credenciales inv'' @ [CHR 0xC3, CHR 0xA1] @ ''lidas''"

definition msg_sin_institucion :: string where
  "msg_sin_institucion = ''Sin instituci'' @ [CHR 0xC3, CHR 0xB3] @ ''n''"

definition msg_token_invalido :: string where
  "msg_token_invalido = ''Token inv'' @ [CHR 0xC3, CHR 0xA1] @ ''lido''"

definition msg_algo_salio_mal :: string where
  "msg_algo_salio_mal = ''Algo sali'' @ [CHR 0xC3, CHR 0xB3] @ '' mal!''"

section \<open>POST /api/auth/registro-estudiante\<close>

text \<open>
  The handlers take \<^verbatim>\<open>req.body\<close> as the object the body parsers leave there (the empty
  object when the request has no parsable body), so a field that was not sent reads as
  undefined.
\<close>

text \<open>The institution lookup, the same request in all three files.\<close>

definition institucion_query :: "jsval \<Rightarrow> query" where
  "institucion_query codigo_institucion =
     eq_q ''activo'' (JBool True)
       (eq_q ''codigo_acceso'' codigo_institucion
         (select_q [Column ''id'', Column ''nombre''] (from_q ''instituciones'')))"

text \<open>\<^verbatim>\<open>src/server.js\<close>, lines 244 to 311.\<close>

definition post_registro_estudiante :: "globals \<Rightarrow> jsobj \<Rightarrow> served" where
  "post_registro_estudiante g req_body =
     (let nombre = getprop req_body ''nombre'';
          apellidos = getprop req_body ''apellidos'';
          email = getprop req_body ''email'';
          password = getprop req_body ''password'';
          codigo_institucion = getprop req_body ''codigo_institucion'';
          grado = getprop req_body ''grado'';
          catch = (\<lambda>e cs. respond 500
                     [(''error'', JStr ''Error interno del servidor''),
                      (''details'', JStr (message e))] cs)
      in
      if \<not> truthy nombre \<or> \<not> truthy apellidos \<or> \<not> truthy email \<or> \<not> truthy password
           \<or> \<not> truthy codigo_institucion \<or> \<not> truthy grado
      then respond 400 [(''error'', JStr ''Todos los campos son requeridos'')] []
      else
        let q = institucion_query codigo_institucion; c1 = [AwaitSingle q] in
        case await_single (supabase g) q of
          Rejected e \<Rightarrow> catch e c1
        | Fulfilled (Reply institucion instError) \<Rightarrow>
            (case (instError, institucion) of
               (None, Some inst) \<Rightarrow>
                 (let meta = [(''nombre'', nombre), (''apellidos'', apellidos),
                              (''rol'', JStr ''estudiante''), (''grado'', grado),
                              (''institucion_id'', getprop inst ''id'')];
                      c2 = c1 @ [SignUp email password meta]
                  in
                  case auth_signUp (supabase g) email password meta of
                    Rejected e \<Rightarrow> catch e c2
                  | Fulfilled (AuthReply au_user au_session authError) \<Rightarrow>
                      (case authError of
                         Some ae \<Rightarrow>
                           respond 400
                             [(''error'', JStr (''Error al crear usuario: '' @ message ae))] c2
                       | None \<Rightarrow>
                           (case au_user of
                              None \<Rightarrow>
                                catch (null_read ''id'') c2
                            | Some u \<Rightarrow>
                                respond 201
                                  [(''success'', JBool True),
                                   (''message'', JStr ''Estudiante registrado exitosamente''),
                                   (''user'', JObj
                                      [(''id'', getprop u ''id''),
                                       (''email'', getprop u ''email''),
                                       (''nombre'', nombre),
                                       (''apellidos'', apellidos),
                                       (''rol'', JStr ''estudiante''),
                                       (''grado'', grado),
                                       (''institucion'', getprop inst ''nombre'')])] c2)))
             | _ \<Rightarrow> respond 400 [(''error'', JStr msg_codigo_invalido)] c1))"

text \<open>
  \<^verbatim>\<open>src/unnamed/part_000\<close>, lines 100 to 184. This file checks the profile table for the
  email before signing up, and tags the student with a code made from the clock.
\<close>

definition email_registrado_query :: "jsval \<Rightarrow> query" where
  "email_registrado_query email =
     eq_q ''email'' email (select_q [Column ''id''] (from_q ''usuarios''))"

fun show_nat :: "nat \<Rightarrow> string" where
  "show_nat n =
     (if n < 10 then [''0123456789'' ! n]
      else show_nat (n div 10) @ [''0123456789'' ! (n mod 10)])"

definition post_registro_estudiante_part000 :: "globals \<Rightarrow> jsobj \<Rightarrow> served" where
  "post_registro_estudiante_part000 g req_body =
     (let nombre = getprop req_body ''nombre'';
          apellidos = getprop req_body ''apellidos'';
          email = getprop req_body ''email'';
          password = getprop req_body ''password'';
          codigo_institucion = getprop req_body ''codigo_institucion'';
          grado = getprop req_body ''grado'';
          catch = (\<lambda>e cs. respond 500 [(''error'', JStr ''Error interno del servidor'')] cs)
      in
      if \<not> truthy nombre \<or> \<not> truthy apellidos \<or> \<not> truthy email \<or> \<not> truthy password
           \<or> \<not> truthy codigo_institucion \<or> \<not> truthy grado
      then respond 400 [(''error'', JStr ''Todos los campos son requeridos'')] []
      else
        let q = institucion_query codigo_institucion; c1 = [AwaitSingle q] in
        case await_single (supabase g) q of
          Rejected e \<Rightarrow> catch e c1
        | Fulfilled (Reply institucion instError) \<Rightarrow>
            (case (instError, institucion) of
               (None, Some inst) \<Rightarrow>
                 (let qu = email_registrado_query email; c2 = c1 @ [AwaitSingle qu]
                  in
                  case await_single (supabase g) qu of
                    Rejected e \<Rightarrow> catch e c2
                  | Fulfilled (Reply existingUser existingError) \<Rightarrow>
                      (case existingUser of
                         Some eu \<Rightarrow> respond 400 [(''error'', JStr msg_email_registrado)] c2
                       | None \<Rightarrow>
                           (let codigo_estudiante = JStr (''EST'' @ show_nat (date_now g));
                                meta = [(''nombre'', nombre), (''apellidos'', apellidos),
                                        (''rol'', JStr ''estudiante''), (''grado'', grado),
                                        (''codigo_estudiante'', codigo_estudiante),
                                        (''institucion_id'', getprop inst ''id'')];
                                c3 = c2 @ [SignUp email password meta]
                            in
                            case auth_signUp (supabase g) email password meta of
                              Rejected e \<Rightarrow> catch e c3
                            | Fulfilled (AuthReply au_user au_session authError) \<Rightarrow>
                                (case authError of
                                   Some ae \<Rightarrow>
                                     respond 400
                                       [(''error'',
                                         JStr (''Error al crear usuario: '' @ message ae))] c3
                                 | None \<Rightarrow>
                                     (case au_user of
                                        None \<Rightarrow> catch (null_read ''id'') c3
                                      | Some u \<Rightarrow>
                                          respond 201
                                            [(''message'',
                                              JStr ''Estudiante registrado exitosamente''),
                                             (''user'', JObj
                                                [(''id'', getprop u ''id''),
                                                 (''email'', getprop u ''email''),
                                                 (''nombre'', nombre),
                                                 (''apellidos'', apellidos),
                                                 (''rol'', JStr ''estudiante''),
                                                 (''grado'', grado),
                                                 (''codigo_estudiante'', codigo_estudiante),
                                                 (''institucion'', getprop inst ''nombre'')])]
                                            c3)))))
             | _ \<Rightarrow> respond 400 [(''error'', JStr msg_codigo_invalido)] c1))"

text \<open>
  \<^verbatim>\<open>src/unnamed/part_001\<close>, lines 299 to 389. After a successful sign-up this file also
  inserts a row into \<^verbatim>\<open>usuarios\<close>; an error from the insert is logged and nothing else.
\<close>

definition post_registro_estudiante_part001 :: "globals \<Rightarrow> jsobj \<Rightarrow> served" where
  "post_registro_estudiante_part001 g req_body =
     (let nombre = getprop req_body ''nombre'';
          apellidos = getprop req_body ''apellidos'';
          email = getprop req_body ''email'';
          password = getprop req_body ''password'';
          codigo_institucion = getprop req_body ''codigo_institucion'';
          grado = getprop req_body ''grado'';
          catch = (\<lambda>e cs. respond 500
                     [(''error'', JStr ''Error interno del servidor''),
                      (''details'', JStr (message e))] cs)
      in
      if \<not> truthy nombre \<or> \<not> truthy apellidos \<or> \<not> truthy email \<or> \<not> truthy password
           \<or> \<not> truthy codigo_institucion \<or> \<not> truthy grado
      then respond 400 [(''error'', JStr ''Todos los campos son requeridos'')] []
      else
        let q = institucion_query codigo_institucion; c1 = [AwaitSingle q] in
        case await_single (supabase g) q of
          Rejected e \<Rightarrow> catch e c1
        | Fulfilled (Reply institucion instError) \<Rightarrow>
            (case (instError, institucion) of
               (None, Some inst) \<Rightarrow>
                 (let meta = [(''nombre'', nombre), (''apellidos'', apellidos),
                              (''rol'', JStr ''estudiante''), (''grado'', grado),
                              (''institucion_id'', getprop inst ''id'')];
                      c2 = c1 @ [SignUp email password meta]
                  in
                  case auth_signUp (supabase g) email password meta of
                    Rejected e \<Rightarrow> catch e c2
                  | Fulfilled (AuthReply au_user au_session authError) \<Rightarrow>
                      (case authError of
                         Some ae \<Rightarrow>
                           respond 400
                             [(''error'', JStr (''Error al crear usuario: '' @ message ae))] c2
                       | None \<Rightarrow>
                           (case au_user of
                              None \<Rightarrow> catch (null_read ''id'') c2
                            | Some u \<Rightarrow>
                                (let row = [(''id'', getprop u ''id''),
                                            (''institucion_id'', getprop inst ''id''),
                                            (''nombre'', nombre),
                                            (''apellidos'', apellidos),
                                            (''email'', email),
                                            (''password_hash'', JStr ''managed_by_supabase_auth''),
                                            (''rol'', JStr ''estudiante''),
                                            (''grado'', grado),
                                            (''activo'', JBool True)];
                                     c3 = c2 @ [AwaitInsert ''usuarios'' row]
                                 in
                                 case await_insert (supabase g) ''usuarios'' row of
                                   Rejected e \<Rightarrow> catch e c3
                                 | Fulfilled (Reply dbUser dbError) \<Rightarrow>
                                     respond 201
                                       [(''success'', JBool True),
                                        (''message'', JStr ''Estudiante registrado exitosamente''),
                                        (''user'', JObj
                                           [(''id'', getprop u ''id''),
                                            (''email'', getprop u ''email''),
                                            (''nombre'', nombre),
                                            (''apellidos'', apellidos),
                                            (''rol'', JStr ''estudiante''),
                                            (''grado'', grado),
                                            (''institucion'', getprop inst ''nombre'')])] c3))))
             | _ \<Rightarrow> respond 400 [(''error'', JStr msg_codigo_invalido)] c1))"

section \<open>The list endpoints\<close>

subsection \<open>The requests they send\<close>

definition niveles_query :: query where
  "niveles_query =
     order_q ''orden_nivel''
       (eq_q ''activo'' (JBool True) (select_q [AllColumns] (from_q ''niveles'')))"

definition cursos_nivel_query :: "string \<Rightarrow> query" where
  "cursos_nivel_query nivelId =
     order_q ''orden_curso''
       (eq_q ''activo'' (JBool True)
         (eq_q ''nivel_id'' (JStr nivelId)
           (select_q [AllColumns, Embedded ''niveles'' [''nombre'', ''descripcion'']]
             (from_q ''cursos''))))"

definition cursos_query :: query where
  "cursos_query =
     order_q ''orden_curso''
       (eq_q ''activo'' (JBool True)
         (select_q [AllColumns,
                    Embedded ''niveles'' [''nombre'', ''descripcion'', ''color'', ''icono'']]
           (from_q ''cursos'')))"

definition nivel_por_nombre_query :: "jsval \<Rightarrow> query" where
  "nivel_por_nombre_query nivel =
     eq_q ''nombre'' nivel (select_q [Column ''id''] (from_q ''niveles''))"

definition lecciones_query :: "string \<Rightarrow> query" where
  "lecciones_query cursoId =
     order_q ''orden_leccion''
       (eq_q ''activo'' (JBool True)
         (eq_q ''curso_id'' (JStr cursoId) (select_q [AllColumns] (from_q ''lecciones''))))"

definition instituciones_query :: query where
  "instituciones_query =
     eq_q ''activo'' (JBool True)
       (select_q [Column ''id'', Column ''nombre'', Column ''codigo_acceso'']
         (from_q ''instituciones''))"

subsection \<open>\<^verbatim>\<open>src/server.js\<close> and \<^verbatim>\<open>src/unnamed/part_001\<close>\<close>

text \<open>
  The two files have the same text for these four handlers (\<^verbatim>\<open>server.js\<close> lines 110 to
  239, \<^verbatim>\<open>part_001\<close> lines 115 to 180 and 233 to 294). \<^verbatim>\<open>data.length\<close> on a null
  \<^verbatim>\<open>data\<close> throws into the \<^verbatim>\<open>catch\<close>.
\<close>

definition get_niveles :: "globals \<Rightarrow> served" where
  "get_niveles g =
     (let q = niveles_query; cs = [AwaitRows q];
          catch = (\<lambda>e. respond 500
                     [(''error'', JStr ''Error interno del servidor''),
                      (''details'', JStr (message e))] cs)
      in
      case await_rows (supabase g) q of
        Rejected e \<Rightarrow> catch e
      | Fulfilled (Reply rows err) \<Rightarrow>
          (case err of
             Some e \<Rightarrow>
               respond 500
                 [(''error'', JStr ''Error al obtener niveles''),
                  (''details'', JStr (message e))] cs
           | None \<Rightarrow>
               (case rows of
                  None \<Rightarrow> catch (null_read ''length'')
                | Some rs \<Rightarrow>
                    respond 200
                      [(''success'', JBool True),
                       (''count'', JNum (of_nat (length rs))),
                       (''niveles'', JArr (map JObj rs))] cs)))"

definition get_cursos_nivelId :: "globals \<Rightarrow> string \<Rightarrow> served" where
  "get_cursos_nivelId g nivelId =
     (let q = cursos_nivel_query nivelId; cs = [AwaitRows q];
          catch = (\<lambda>e. respond 500
                     [(''error'', JStr ''Error interno del servidor''),
                      (''details'', JStr (message e))] cs)
      in
      case await_rows (supabase g) q of
        Rejected e \<Rightarrow> catch e
      | Fulfilled (Reply rows err) \<Rightarrow>
          (case err of
             Some e \<Rightarrow>
               respond 500
                 [(''error'', JStr ''Error al obtener cursos''),
                  (''details'', JStr (message e))] cs
           | None \<Rightarrow>
               (case rows of
                  None \<Rightarrow> catch (null_read ''length'')
                | Some rs \<Rightarrow>
                    respond 200
                      [(''success'', JBool True),
                       (''count'', JNum (of_nat (length rs))),
                       (''cursos'', JArr (map JObj rs))] cs)))"

definition get_lecciones :: "globals \<Rightarrow> string \<Rightarrow> served" where
  "get_lecciones g cursoId =
     (let q = lecciones_query cursoId; cs = [AwaitRows q];
          catch = (\<lambda>e. respond 500
                     [(''error'', JStr ''Error interno del servidor''),
                      (''details'', JStr (message e))] cs)
      in
      case await_rows (supabase g) q of
        Rejected e \<Rightarrow> catch e
      | Fulfilled (Reply rows err) \<Rightarrow>
          (case err of
             Some e \<Rightarrow>
               respond 500
                 [(''error'', JStr ''Error al obtener lecciones''),
                  (''details'', JStr (message e))] cs
           | None \<Rightarrow>
               (case rows of
                  None \<Rightarrow> catch (null_read ''length'')
                | Some rs \<Rightarrow>
                    respond 200
                      [(''success'', JBool True),
                       (''count'', JNum (of_nat (length rs))),
                       (''lecciones'', JArr (map JObj rs))] cs)))"

definition get_instituciones :: "globals \<Rightarrow> served" where
  "get_instituciones g =
     (let q = instituciones_query; cs = [AwaitRows q];
          catch = (\<lambda>e. respond 500
                     [(''error'', JStr ''Error interno del servidor''),
                      (''details'', JStr (message e))] cs)
      in
      case await_rows (supabase g) q of
        Rejected e \<Rightarrow> catch e
      | Fulfilled (Reply rows err) \<Rightarrow>
          (case err of
             Some e \<Rightarrow>
               respond 500
                 [(''error'', JStr ''Error al obtener instituciones''),
                  (''details'', JStr (message e))] cs
           | None \<Rightarrow>
               (case rows of
                  None \<Rightarrow> catch (null_read ''length'')
                | Some rs \<Rightarrow>
                    respond 200
                      [(''success'', JBool True),
                       (''count'', JNum (of_nat (length rs))),
                       (''instituciones'', JArr (map JObj rs))] cs)))"

subsection \<open>\<^verbatim>\<open>src/unnamed/part_001\<close> only: all courses, optionally of one level\<close>

text \<open>
  Lines 183 to 230. \<^verbatim>\<open>req.query.nivel\<close> is whatever the query-string parser produced.
  Only \<^verbatim>\<open>data\<close> of the level lookup is read; when it is null the course request goes
  out as first built. \<open>await_cursos\<close> is the handler from \<^verbatim>\<open>await query\<close> on (lines 208
  to 222), given the request to send and the requests already sent.
\<close>

definition await_cursos :: "globals \<Rightarrow> query \<Rightarrow> call list \<Rightarrow> served" where
  "await_cursos g q sent =
     (let cs = sent @ [AwaitRows q];
          catch = (\<lambda>e. respond 500
                     [(''error'', JStr ''Error interno del servidor''),
                      (''details'', JStr (message e))] cs)
      in
      case await_rows (supabase g) q of
        Rejected e \<Rightarrow> catch e
      | Fulfilled (Reply rows err) \<Rightarrow>
          (case err of
             Some e \<Rightarrow>
               respond 500
                 [(''error'', JStr ''Error al obtener cursos''),
                  (''details'', JStr (message e))] cs
           | None \<Rightarrow>
               (case rows of
                  None \<Rightarrow> catch (null_read ''length'')
                | Some rs \<Rightarrow>
                    respond 200
                      [(''success'', JBool True),
                       (''count'', JNum (of_nat (length rs))),
                       (''cursos'', JArr (map JObj rs))] cs)))"

definition get_cursos_part001 :: "globals \<Rightarrow> jsval \<Rightarrow> served" where
  "get_cursos_part001 g nivel =
     (if truthy nivel then
        (let qn = nivel_por_nombre_query nivel; c1 = [AwaitSingle qn] in
         case await_single (supabase g) qn of
           Rejected e \<Rightarrow>
             respond 500
               [(''error'', JStr ''Error interno del servidor''),
                (''details'', JStr (message e))] c1
         | Fulfilled (Reply nivelData nivelError) \<Rightarrow>
             (case nivelData of
                Some nd \<Rightarrow> await_cursos g (eq_q ''nivel_id'' (getprop nd ''id'') cursos_query) c1
              | None \<Rightarrow> await_cursos g cursos_query c1))
      else await_cursos g cursos_query [])"

subsection \<open>\<^verbatim>\<open>src/unnamed/part_000\<close>\<close>

text \<open>
  Lines 236 to 313. An upstream error is thrown into the \<^verbatim>\<open>catch\<close>; the reply is the
  bare array under its name, with no \<^verbatim>\<open>success\<close> and no \<^verbatim>\<open>count\<close>, and a null \<^verbatim>\<open>data\<close>
  is passed on as null.
\<close>

definition rows_json :: "jsobj list option \<Rightarrow> jsval" where
  "rows_json rows = (case rows of None \<Rightarrow> JNull | Some rs \<Rightarrow> JArr (map JObj rs))"

definition get_niveles_part000 :: "globals \<Rightarrow> served" where
  "get_niveles_part000 g =
     (let q = niveles_query; cs = [AwaitRows q];
          catch = (\<lambda>e. respond 500 [(''error'', JStr ''Error al obtener niveles'')] cs)
      in
      case await_rows (supabase g) q of
        Rejected e \<Rightarrow> catch e
      | Fulfilled (Reply rows err) \<Rightarrow>
          (case err of
             Some e \<Rightarrow> catch e
           | None \<Rightarrow> respond 200 [(''niveles'', rows_json rows)] cs))"

definition get_cursos_nivelId_part000 :: "globals \<Rightarrow> string \<Rightarrow> served" where
  "get_cursos_nivelId_part000 g nivelId =
     (let q = cursos_nivel_query nivelId; cs = [AwaitRows q];
          catch = (\<lambda>e. respond 500 [(''error'', JStr ''Error al obtener cursos'')] cs)
      in
      case await_rows (supabase g) q of
        Rejected e \<Rightarrow> catch e
      | Fulfilled (Reply rows err) \<Rightarrow>
          (case err of
             Some e \<Rightarrow> catch e
           | None \<Rightarrow> respond 200 [(''cursos'', rows_json rows)] cs))"

definition get_lecciones_part000 :: "globals \<Rightarrow> string \<Rightarrow> served" where
  "get_lecciones_part000 g cursoId =
     (let q = lecciones_query cursoId; cs = [AwaitRows q];
          catch = (\<lambda>e. respond 500 [(''error'', JStr ''Error al obtener lecciones'')] cs)
      in
      case await_rows (supabase g) q of
        Rejected e \<Rightarrow> catch e
      | Fulfilled (Reply rows err) \<Rightarrow>
          (case err of
             Some e \<Rightarrow> catch e
           | None \<Rightarrow> respond 200 [(''lecciones'', rows_json rows)] cs))"

definition get_instituciones_part000 :: "globals \<Rightarrow> served" where
  "get_instituciones_part000 g =
     (let q = instituciones_query; cs = [AwaitRows q];
          catch = (\<lambda>e. respond 500 [(''error'', JStr ''Error al obtener instituciones'')] cs)
      in
      case await_rows (supabase g) q of
        Rejected e \<Rightarrow> catch e
      | Fulfilled (Reply rows err) \<Rightarrow>
          (case err of
             Some e \<Rightarrow> catch e
           | None \<Rightarrow> respond 200 [(''instituciones'', rows_json rows)] cs))"

section \<open>POST /api/auth/login\<close>

text \<open>
  \<^verbatim>\<open>src/unnamed/part_000\<close>, lines 187 to 231: the reply carries the profile row when there
  is one and the auth user object otherwise (\<^verbatim>\<open>userData || authData.user\<close>).
\<close>

definition perfil_query_part000 :: "jsval \<Rightarrow> query" where
  "perfil_query_part000 email =
     eq_q ''email'' email
       (select_q [AllColumns, Embedded ''instituciones'' [''nombre'']] (from_q ''usuarios''))"

definition post_login_part000 :: "globals \<Rightarrow> jsobj \<Rightarrow> served" where
  "post_login_part000 g req_body =
     (let email = getprop req_body ''email'';
          password = getprop req_body ''password'';
          catch = (\<lambda>e cs. respond 500 [(''error'', JStr ''Error interno del servidor'')] cs)
      in
      if \<not> truthy email \<or> \<not> truthy password
      then respond 400 [(''error'', JStr msg_email_password_requeridos)] []
      else
        let c1 = [SignInWithPassword email password] in
        case auth_signInWithPassword (supabase g) email password of
          Rejected e \<Rightarrow> catch e c1
        | Fulfilled (AuthReply au_user au_session authError) \<Rightarrow>
            (case authError of
               Some ae \<Rightarrow> respond 401 [(''error'', JStr msg_credenciales_invalidas)] c1
             | None \<Rightarrow>
                 (let qu = perfil_query_part000 email; c2 = c1 @ [AwaitSingle qu]
                  in
                  case await_single (supabase g) qu of
                    Rejected e \<Rightarrow> catch e c2
                  | Fulfilled (Reply userData userError) \<Rightarrow>
                      respond 200
                        [(''message'', JStr ''Login exitoso''),
                         (''session'', au_session),
                         (''user'',
                            (case userData of
                               Some ud \<Rightarrow> JObj ud
                             | None \<Rightarrow> (case au_user of Some u \<Rightarrow> JObj u | None \<Rightarrow> JNull)))]
                        c2)))"

text \<open>
  \<^verbatim>\<open>src/unnamed/part_001\<close>, lines 392 to 467: the branch is taken on the lookup's error.
  With an error the summary is built from the auth user and its metadata, each metadata
  field with a default; without one it is built from the profile row alone.
\<close>

definition perfil_query_part001 :: "jsval \<Rightarrow> query" where
  "perfil_query_part001 email =
     eq_q ''activo'' (JBool True)
       (eq_q ''email'' email
         (select_q [Column ''id'', Column ''nombre'', Column ''apellidos'', Column ''rol'',
                    Column ''grado'', Column ''activo'',
                    Embedded ''instituciones'' [''nombre'', ''codigo_acceso'']]
           (from_q ''usuarios'')))"

definition post_login_part001 :: "globals \<Rightarrow> jsobj \<Rightarrow> served" where
  "post_login_part001 g req_body =
     (let email = getprop req_body ''email'';
          password = getprop req_body ''password'';
          catch = (\<lambda>e cs. respond 500
                     [(''error'', JStr ''Error interno del servidor''),
                      (''details'', JStr (message e))] cs)
      in
      if \<not> truthy email \<or> \<not> truthy password
      then respond 400 [(''error'', JStr msg_email_password_requeridos)] []
      else
        let c1 = [SignInWithPassword email password] in
        case auth_signInWithPassword (supabase g) email password of
          Rejected e \<Rightarrow> catch e c1
        | Fulfilled (AuthReply au_user au_session authError) \<Rightarrow>
            (case authError of
               Some ae \<Rightarrow> respond 401 [(''error'', JStr msg_credenciales_invalidas)] c1
             | None \<Rightarrow>
                 (let qu = perfil_query_part001 email; c2 = c1 @ [AwaitSingle qu]
                  in
                  case await_single (supabase g) qu of
                    Rejected e \<Rightarrow> catch e c2
                  | Fulfilled (Reply userData userError) \<Rightarrow>
                      (case userError of
                         Some ue \<Rightarrow>
                           (case au_user of
                              None \<Rightarrow> catch (null_read ''id'') c2
                            | Some u \<Rightarrow>
                                (let metadata = getprop u ''user_metadata'' in
                                 case member metadata ''nombre'' of
                                   Inl e \<Rightarrow> catch e c2
                                 | Inr meta_nombre \<Rightarrow>
                                     respond 200
                                       [(''success'', JBool True),
                                        (''message'', JStr ''Login exitoso''),
                                        (''user'', JObj
                                           [(''id'', getprop u ''id''),
                                            (''email'', getprop u ''email''),
                                            (''nombre'', js_or meta_nombre (JStr ''Usuario'')),
                                            (''apellidos'',
                                               js_or (opt_member metadata ''apellidos'') (JStr '''')),
                                            (''rol'',
                                               js_or (opt_member metadata ''rol'')
                                                 (JStr ''estudiante'')),
                                            (''grado'',
                                               js_or (opt_member metadata ''grado'')
                                                 (JStr ''sin-grado''))]),
                                        (''session'', au_session)] c2))
                       | None \<Rightarrow>
                           (case userData of
                              None \<Rightarrow> catch (null_read ''id'') c2
                            | Some ud \<Rightarrow>
                                respond 200
                                  [(''success'', JBool True),
                                   (''message'', JStr ''Login exitoso''),
                                   (''user'', JObj
                                      [(''id'', getprop ud ''id''),
                                       (''email'', email),
                                       (''nombre'', getprop ud ''nombre''),
                                       (''apellidos'', getprop ud ''apellidos''),
                                       (''rol'', getprop ud ''rol''),
                                       (''grado'', getprop ud ''grado''),
                                       (''institucion'',
                                          js_or (opt_member (getprop ud ''instituciones'') ''nombre'')
                                            (JStr msg_sin_institucion))]),
                                   (''session'', au_session)] c2)))))"

section \<open>GET /api/auth/me and POST /api/auth/logout\<close>

text \<open>\<^verbatim>\<open>s.replace(pat, rep)\<close> with a string pattern replaces its first occurrence.\<close>

fun replace_first :: "string \<Rightarrow> string \<Rightarrow> string \<Rightarrow> string" where
  "replace_first pat rep [] = (if pat = [] then rep else [])"
| "replace_first pat rep (c # cs) =
     (if take (length pat) (c # cs) = pat then rep @ drop (length pat) (c # cs)
      else c # replace_first pat rep cs)"

text \<open>
  \<^verbatim>\<open>p || m.k || d\<close>, where \<^verbatim>\<open>m.k\<close> is read, and can throw, only when \<^verbatim>\<open>p\<close> is falsy.
\<close>

definition profile_or_metadata :: "jsval \<Rightarrow> jsval \<Rightarrow> string \<Rightarrow> jsval \<Rightarrow> js_error + jsval" where
  "profile_or_metadata p m k d =
     (if truthy p then Inr p
      else case member m k of Inl e \<Rightarrow> Inl e | Inr v \<Rightarrow> Inr (js_or v d))"

text \<open>
  \<^verbatim>\<open>src/unnamed/part_001\<close>, lines 470 to 514. The header is absent or a string.
\<close>

definition perfil_me_query :: "jsval \<Rightarrow> query" where
  "perfil_me_query user_id =
     eq_q ''id'' user_id
       (select_q [Column ''nombre'', Column ''apellidos'', Column ''rol'', Column ''grado'',
                  Embedded ''instituciones'' [''nombre'']]
         (from_q ''usuarios''))"

definition get_me_part001 :: "globals \<Rightarrow> string option \<Rightarrow> served" where
  "get_me_part001 g authorization =
     (let catch = (\<lambda>e cs. respond 500
                     [(''error'', JStr ''Error interno del servidor''),
                      (''details'', JStr (message e))] cs)
      in
      case authorization of
        None \<Rightarrow> respond 401 [(''error'', JStr ''Token no proporcionado'')] []
      | Some authHeader \<Rightarrow>
          if authHeader = [] then respond 401 [(''error'', JStr ''Token no proporcionado'')] []
          else
            let token = replace_first ''Bearer '' [] authHeader; c1 = [GetUser token] in
            (case auth_getUser (supabase g) token of
              Rejected e \<Rightarrow> catch e c1
            | Fulfilled (AuthReply au_user au_session err) \<Rightarrow>
                (case (err, au_user) of
                   (None, Some u) \<Rightarrow>
                     (let qu = perfil_me_query (getprop u ''id''); c2 = c1 @ [AwaitSingle qu]
                      in
                      case await_single (supabase g) qu of
                        Rejected e \<Rightarrow> catch e c2
                      | Fulfilled (Reply userData userError) \<Rightarrow>
                          (let ud = (\<lambda>k. case userData of None \<Rightarrow> JUndefined
                                                          | Some r \<Rightarrow> getprop r k);
                               metadata = getprop u ''user_metadata''
                           in
                           case profile_or_metadata (ud ''nombre'') metadata ''nombre''
                                  (JStr ''Usuario'') of
                             Inl e \<Rightarrow> catch e c2
                           | Inr v_nombre \<Rightarrow>
                           (case profile_or_metadata (ud ''apellidos'') metadata ''apellidos''
                                  (JStr '''') of
                             Inl e \<Rightarrow> catch e c2
                           | Inr v_apellidos \<Rightarrow>
                           (case profile_or_metadata (ud ''rol'') metadata ''rol''
                                  (JStr ''estudiante'') of
                             Inl e \<Rightarrow> catch e c2
                           | Inr v_rol \<Rightarrow>
                           (case profile_or_metadata (ud ''grado'') metadata ''grado''
                                  (JStr ''sin-grado'') of
                             Inl e \<Rightarrow> catch e c2
                           | Inr v_grado \<Rightarrow>
                               respond 200
                                 [(''success'', JBool True),
                                  (''user'', JObj
                                     [(''id'', getprop u ''id''),
                                      (''email'', getprop u ''email''),
                                      (''nombre'', v_nombre),
                                      (''apellidos'', v_apellidos),
                                      (''rol'', v_rol),
                                      (''grado'', v_grado),
                                      (''institucion'',
                                         opt_member (ud ''instituciones'') ''nombre'')])] c2)))))
                 | _ \<Rightarrow> respond 401 [(''error'', JStr msg_token_invalido)] c1)))"

text \<open>\<^verbatim>\<open>src/unnamed/part_001\<close>, lines 517 to 537.\<close>

definition post_logout_part001 :: "globals \<Rightarrow> string option \<Rightarrow> served" where
  "post_logout_part001 g authorization =
     (let ok = respond 200 [(''success'', JBool True), (''message'', JStr ''Logout exitoso'')] in
      case authorization of
        None \<Rightarrow> ok []
      | Some authHeader \<Rightarrow>
          if authHeader = [] then ok []
          else
            let token = replace_first ''Bearer '' [] authHeader; c1 = [SignOut token] in
            (case auth_signOut (supabase g) token of
               Rejected e \<Rightarrow>
                 respond 500
                   [(''error'', JStr ''Error interno del servidor''),
                    (''details'', JStr (message e))] c1
             | Fulfilled u \<Rightarrow> ok c1))"

section \<open>GET /api/health\<close>

text \<open>\<^verbatim>\<open>src/server.js\<close>, lines 69 to 105, and the same text in \<^verbatim>\<open>part_001\<close>, lines 74 to 110.\<close>

definition health_query :: query where
  "health_query = limit_q 1 (select_q [Column ''id''] (from_q ''niveles''))"

definition get_health :: "globals \<Rightarrow> served" where
  "get_health g =
     (let q = health_query; cs = [AwaitRows q] in
      case await_rows (supabase g) q of
        Rejected e \<Rightarrow>
          respond 500
            [(''status'', JStr ''ERROR''), (''database'', JStr ''Error''),
             (''error'', JStr (message e)), (''timestamp'', JStr (now_iso g))] cs
      | Fulfilled (Reply rows err) \<Rightarrow>
          (case err of
             Some e \<Rightarrow>
               respond 500
                 [(''status'', JStr ''ERROR''), (''database'', JStr ''Disconnected''),
                  (''supabase'', JStr ''Error''), (''error'', JStr (message e)),
                  (''timestamp'', JStr (now_iso g))] cs
           | None \<Rightarrow>
               respond 200
                 [(''status'', JStr ''OK''), (''database'', JStr ''Connected''),
                  (''supabase'', JStr ''Connected''), (''timestamp'', JStr (now_iso g)),
                  (''uptime'', JNum (uptime g)),
                  (''dataTest'',
                     JStr (case rows of Some rs \<Rightarrow> ''Success''
                                      | None \<Rightarrow> ''No data but connected''))] cs))"

text \<open>\<^verbatim>\<open>src/unnamed/part_000\<close>, lines 69 to 95: an upstream error is thrown into the catch.\<close>

definition health_query_part000 :: query where
  "health_query_part000 = limit_q 1 (select_q [Column ''count(*)''] (from_q ''instituciones''))"

definition get_health_part000 :: "globals \<Rightarrow> served" where
  "get_health_part000 g =
     (let q = health_query_part000; cs = [AwaitRows q];
          catch = (\<lambda>e. respond 500
                     [(''status'', JStr ''ERROR''), (''database'', JStr ''Disconnected''),
                      (''error'', JStr (message e)), (''timestamp'', JStr (now_iso g))] cs)
      in
      case await_rows (supabase g) q of
        Rejected e \<Rightarrow> catch e
      | Fulfilled (Reply rows err) \<Rightarrow>
          (case err of
             Some e \<Rightarrow> catch e
           | None \<Rightarrow>
               respond 200
                 [(''status'', JStr ''OK''), (''database'', JStr ''Connected''),
                  (''supabase'', JStr ''Connected''), (''timestamp'', JStr (now_iso g)),
                  (''uptime'', JNum (uptime g))] cs))"

section \<open>The error middleware\<close>

text \<open>
  The same four-argument middleware closes all three files (\<^verbatim>\<open>server.js\<close> lines 316 to
  322). It reveals the exception's message exactly when \<^verbatim>\<open>NODE_ENV\<close> is the string
  \<^verbatim>\<open>development\<close>.
\<close>

definition error_middleware :: "globals \<Rightarrow> js_error \<Rightarrow> served" where
  "error_middleware g err =
     respond 500
       [(''error'', JStr msg_algo_salio_mal),
        (''message'',
           JStr (if NODE_ENV g = Some ''development'' then message err
                 else ''Error interno del servidor''))] []"

section \<open>Vocabulary of the stated properties\<close>

text \<open>The six fields a registration must carry.\<close>

definition required_fields :: "string list" where
  "required_fields =
     [''nombre'', ''apellidos'', ''email'', ''password'', ''codigo_institucion'', ''grado'']"

definition complete :: "jsobj \<Rightarrow> bool" where
  "complete req_body = list_all (\<lambda>k. truthy (getprop req_body k)) required_fields"

text \<open>Whether a handler asked the auth service to create an account.\<close>

fun is_signUp :: "call \<Rightarrow> bool" where
  "is_signUp (SignUp e p m) = True"
| "is_signUp c = False"

text \<open>
  The accounts the auth service created in answer to the sign-ups a handler sent, and the
  members of the \<^verbatim>\<open>user\<close> object of a response.
\<close>

fun created :: "supabase_client \<Rightarrow> call \<Rightarrow> jsobj list" where
  "created sb (SignUp e p m) =
     (case auth_signUp sb e p m of
        Fulfilled (AuthReply (Some u) s None) \<Rightarrow> [u]
      | _ \<Rightarrow> [])"
| "created sb c = []"

definition accounts_created :: "globals \<Rightarrow> served \<Rightarrow> jsobj list" where
  "accounts_created g r = concat (map (created (supabase g)) (calls r))"

definition user_member :: "served \<Rightarrow> string \<Rightarrow> jsval" where
  "user_member r k = opt_member (getprop (body r) ''user'') k"

text \<open>
  The profile metadata a registration attaches to the sign-up (\<^verbatim>\<open>part_000\<close> adds the
  student code), the row that \<^verbatim>\<open>part_001\<close> inserts, and what it means that a response
  reports the account \<open>u\<close> created at the institution \<open>inst\<close>.
\<close>

definition signup_metadata :: "jsobj \<Rightarrow> jsobj \<Rightarrow> jsobj" where
  "signup_metadata req_body inst =
     [(''nombre'', getprop req_body ''nombre''), (''apellidos'', getprop req_body ''apellidos''),
      (''rol'', JStr ''estudiante''), (''grado'', getprop req_body ''grado''),
      (''institucion_id'', getprop inst ''id'')]"

definition signup_metadata_part000 :: "globals \<Rightarrow> jsobj \<Rightarrow> jsobj \<Rightarrow> jsobj" where
  "signup_metadata_part000 g req_body inst =
     [(''nombre'', getprop req_body ''nombre''), (''apellidos'', getprop req_body ''apellidos''),
      (''rol'', JStr ''estudiante''), (''grado'', getprop req_body ''grado''),
      (''codigo_estudiante'', JStr (''EST'' @ show_nat (date_now g))),
      (''institucion_id'', getprop inst ''id'')]"

definition usuario_row :: "jsobj \<Rightarrow> jsobj \<Rightarrow> jsobj \<Rightarrow> jsobj" where
  "usuario_row u req_body inst =
     [(''id'', getprop u ''id''), (''institucion_id'', getprop inst ''id''),
      (''nombre'', getprop req_body ''nombre''), (''apellidos'', getprop req_body ''apellidos''),
      (''email'', getprop req_body ''email''),
      (''password_hash'', JStr ''managed_by_supabase_auth''),
      (''rol'', JStr ''estudiante''), (''grado'', getprop req_body ''grado''),
      (''activo'', JBool True)]"

definition summary :: "jsobj \<Rightarrow> jsobj \<Rightarrow> jsobj \<Rightarrow> jsval" where
  "summary u req_body inst = JObj
     [(''id'', getprop u ''id''), (''email'', getprop u ''email''),
      (''nombre'', getprop req_body ''nombre''),
      (''apellidos'', getprop req_body ''apellidos''),
      (''rol'', JStr ''estudiante''), (''grado'', getprop req_body ''grado''),
      (''institucion'', getprop inst ''nombre'')]"

definition registered :: "globals \<Rightarrow> served \<Rightarrow> jsobj \<Rightarrow> jsobj \<Rightarrow> bool" where
  "registered g r u inst =
     (accounts_created g r = [u] \<and> status r = 201
      \<and> user_member r ''id'' = getprop u ''id''
      \<and> user_member r ''email'' = getprop u ''email''
      \<and> user_member r ''institucion'' = getprop inst ''nombre'')"

text \<open>A field of the profile row, undefined when there is no row (\<^verbatim>\<open>userData?.k\<close>).\<close>

definition profile_field :: "jsobj option \<Rightarrow> string \<Rightarrow> jsval" where
  "profile_field userData k = (case userData of None \<Rightarrow> JUndefined | Some r \<Rightarrow> getprop r k)"

text \<open>The \<^verbatim>\<open>access_token\<close> of the session a login response carries.\<close>

definition session_token :: "served \<Rightarrow> jsval" where
  "session_token r = opt_member (getprop (body r) ''session'') ''access_token''"

text \<open>
  What the list endpoints rely on the external service for. A column is in an answer's
  rows when the selection has it; \<open>honours q rows\<close> says that \<open>rows\<close> respects an
  equality filter on a boolean column wherever that column is in the rows, and respects
  the order clause, if there is one. Ascending order places numbers by size and nulls
  last.
\<close>

definition selects_column :: "query \<Rightarrow> string \<Rightarrow> bool" where
  "selects_column q k = (AllColumns \<in> set (columns q) \<or> Column k \<in> set (columns q))"

fun order_le :: "jsval \<Rightarrow> jsval \<Rightarrow> bool" where
  "order_le (JNum a) (JNum b) = (a \<le> b)"
| "order_le x JNull = True"
| "order_le x y = False"

definition ascending_by :: "string \<Rightarrow> jsobj list \<Rightarrow> bool" where
  "ascending_by k rows = sorted_wrt (\<lambda>r s. order_le (getprop r k) (getprop s k)) rows"


definition honours :: "query \<Rightarrow> jsobj list \<Rightarrow> bool" where
  "honours q rows =
     (list_all
        (\<lambda>(k, v). case v of
                    JBool b \<Rightarrow> \<not> selects_column q k \<or> list_all (\<lambda>r. getprop r k = JBool b) rows
                  | _ \<Rightarrow> True)
        (filters q)
      \<and> (case ordering q of None \<Rightarrow> True | Some k \<Rightarrow> ascending_by k rows))"

text \<open>The request for rows succeeded with \<open>rows\<close>, and they honour the request.\<close>

definition answered :: "globals \<Rightarrow> query \<Rightarrow> jsobj list \<Rightarrow> bool" where
  "answered g q rows =
     (await_rows (supabase g) q = Fulfilled (Reply (Some rows) None) \<and> honours q rows)"

text \<open>A 200 whose body has the rows under \<open>name\<close>; and its \<^verbatim>\<open>count\<close> member.\<close>

definition delivers :: "served \<Rightarrow> string \<Rightarrow> jsobj list \<Rightarrow> bool" where
  "delivers r name rows = (status r = 200 \<and> getprop (body r) name = JArr (map JObj rows))"

definition counts :: "served \<Rightarrow> jsobj list \<Rightarrow> bool" where
  "counts r rows = (getprop (body r) ''count'' = JNum (of_nat (length rows)))"





text \<open>
  Two shapes of a 500: one that hands the exception's message to the caller under
  \<^verbatim>\<open>details\<close>, and one whose body is the fixed text \<open>m\<close> under \<^verbatim>\<open>error\<close> and nothing
  else.
\<close>

definition reveals :: "served \<Rightarrow> js_error \<Rightarrow> bool" where
  "reveals r e = (status r = 500 \<and> getprop (body r) ''details'' = JStr (message e))"

definition generic :: "served \<Rightarrow> string \<Rightarrow> bool" where
  "generic r m = (status r = 500 \<and> body r = [(''error'', JStr m)])"

text \<open>Whether a 500 carries some text under \<^verbatim>\<open>details\<close>.\<close>

fun is_text :: "jsval \<Rightarrow> bool" where
  "is_text (JStr m) = True"
| "is_text v = False"

definition detailed :: "served \<Rightarrow> bool" where
  "detailed r = is_text (getprop (body r) ''details'')"

text \<open>
  Of a response whatever its status: if it is a 500 it carries text under \<^verbatim>\<open>details\<close>;
  if it is a 500 its body is the fixed text \<open>m\<close> and nothing else.
\<close>

definition details_on_500 :: "served \<Rightarrow> bool" where
  "details_on_500 r = (status r = 500 \<longrightarrow> detailed r)"

definition generic_on_500 :: "served \<Rightarrow> string \<Rightarrow> bool" where
  "generic_on_500 r m = (status r = 500 \<longrightarrow> generic r m)"

text \<open>
  How a \<^verbatim>\<open>try\<close> block comes to its \<^verbatim>\<open>catch\<close> on awaiting rows. In \<^verbatim>\<open>server.js\<close> and
  \<^verbatim>\<open>part_001\<close> the list handlers are thrown out by a rejected promise, or by reading
  \<^verbatim>\<open>data.length\<close> when both data and error are null; an upstream error is answered
  without the catch. In \<^verbatim>\<open>part_000\<close> they are thrown out by a rejected promise, or by
  the upstream error itself (\<^verbatim>\<open>if (error) throw error\<close>).
\<close>

fun raised_reading :: "jsobj list reply promise \<Rightarrow> js_error option" where
  "raised_reading (Rejected e) = Some e"
| "raised_reading (Fulfilled (Reply None None)) = Some (null_read ''length'')"
| "raised_reading (Fulfilled r) = None"

fun raised_throwing :: "'a reply promise \<Rightarrow> js_error option" where
  "raised_throwing (Rejected e) = Some e"
| "raised_throwing (Fulfilled (Reply d (Some e))) = Some e"
| "raised_throwing (Fulfilled (Reply d None)) = None"

text \<open>
  The first exception among results computed in turn, and the four summary fields of
  \<^verbatim>\<open>GET /api/auth/me\<close> in the order the object literal computes them.
\<close>

fun first_fault :: "(js_error + jsval) list \<Rightarrow> js_error option" where
  "first_fault [] = None"
| "first_fault (Inl e # rs) = Some e"
| "first_fault (Inr v # rs) = first_fault rs"

definition me_fields :: "jsobj \<Rightarrow> jsobj option \<Rightarrow> (js_error + jsval) list" where
  "me_fields u userData =
     [profile_or_metadata (profile_field userData ''nombre'') (getprop u ''user_metadata'')
        ''nombre'' (JStr ''Usuario''),
      profile_or_metadata (profile_field userData ''apellidos'') (getprop u ''user_metadata'')
        ''apellidos'' (JStr []),
      profile_or_metadata (profile_field userData ''rol'') (getprop u ''user_metadata'')
        ''rol'' (JStr ''estudiante''),
      profile_or_metadata (profile_field userData ''grado'') (getprop u ''user_metadata'')
        ''grado'' (JStr ''sin-grado'')]"

text \<open>
  The query builder's promise as the client library delivers it: fulfilled, with an error
  or with data, not both and not neither.
\<close>

fun settled :: "'a reply promise \<Rightarrow> bool" where
  "settled (Fulfilled (Reply d e)) = ((d = None) \<noteq> (e = None))"
| "settled (Rejected x) = False"

section \<open>A sample deployment\<close>

definition demo_nivel :: jsobj where
  "demo_nivel =
     [(''id'', JNum 1), (''nombre'', JStr ''Primaria''), (''orden_nivel'', JNum 1),
      (''activo'', JBool True)]"

definition demo_curso :: jsobj where
  "demo_curso =
     [(''id'', JNum 7), (''nivel_id'', JNum 1), (''nombre'', JStr ''Robotica''),
      (''orden_curso'', JNum 1), (''activo'', JBool True),
      (''niveles'', JObj [(''nombre'', JStr ''Primaria''), (''descripcion'', JNull)])]"

definition demo_leccion :: jsobj where
  "demo_leccion =
     [(''id'', JNum 3), (''curso_id'', JNum 7), (''nombre'', JStr ''Sensores''),
      (''orden_leccion'', JNum 1), (''activo'', JBool True)]"

definition demo_instituciones :: "jsobj list" where
  "demo_instituciones =
     [[(''id'', JNum 2), (''nombre'', JStr ''Colegio Sur''), (''codigo_acceso'', JStr ''SUR'')],
      [(''id'', JNum 1), (''nombre'', JStr ''Colegio Norte''), (''codigo_acceso'', JStr ''NORTE'')]]"

definition demo_user :: jsobj where
  "demo_user =
     [(''id'', JStr ''u-1''), (''email'', JStr ''ana@example.org''),
      (''user_metadata'', JObj [(''nombre'', JStr ''Ana''), (''grado'', JStr ''5A'')])]"

definition demo_session :: jsval where
  "demo_session = JObj [(''access_token'', JStr ''jwt''), (''token_type'', JStr ''bearer'')]"

definition demo_profile :: jsobj where
  "demo_profile =
     [(''id'', JStr ''u-1''), (''nombre'', JStr ''Ana Maria''), (''apellidos'', JStr ''Quispe''),
      (''rol'', JStr ''estudiante''), (''grado'', JNull), (''activo'', JBool True),
      (''instituciones'', JObj [(''nombre'', JStr ''Colegio Norte'')])]"

definition no_rows :: js_error where
  "no_rows = Error ''JSON object requested, multiple (or no) rows returned''"

text \<open>
  A client that knows one level, one course, one lesson, two institutions (found by either
  access code), no profile rows, and accepts every sign-up and sign-in.
\<close>

definition demo_client :: supabase_client where
  "demo_client =
     \<lparr>await_rows = (\<lambda>q.
        if tbl q = ''niveles'' then Fulfilled (Reply (Some [demo_nivel]) None)
        else if tbl q = ''cursos'' then Fulfilled (Reply (Some [demo_curso]) None)
        else if tbl q = ''lecciones'' then Fulfilled (Reply (Some [demo_leccion]) None)
        else if tbl q = ''instituciones'' then Fulfilled (Reply (Some demo_instituciones) None)
        else Fulfilled (Reply None (Some (Error ''relation does not exist'')))),
      await_single = (\<lambda>q.
        if tbl q = ''instituciones''
        then Fulfilled (Reply (Some [(''id'', JNum 1), (''nombre'', JStr ''Colegio Norte'')]) None)
        else Fulfilled (Reply None (Some no_rows))),
      await_insert = (\<lambda>t row. Fulfilled (Reply (Some row) None)),
      auth_signUp = (\<lambda>email password meta.
        Fulfilled (AuthReply
          (Some [(''id'', JStr ''u-2''), (''email'', email), (''user_metadata'', JObj meta)])
          JNull None)),
      auth_signInWithPassword = (\<lambda>email password.
        Fulfilled (AuthReply (Some demo_user) demo_session None)),
      auth_getUser = (\<lambda>token. Fulfilled (AuthReply (Some demo_user) JNull None)),
      auth_signOut = (\<lambda>token. Fulfilled ())\<rparr>"

definition demo :: globals where
  "demo =
     \<lparr>NODE_ENV = Some ''production'', supabase = demo_client,
      now_iso = ''2024-05-01T12:00:00.000Z'', date_now = 1714564800000, uptime = 42\<rparr>"

text \<open>
  The same deployment with the external service unreachable. The query builder the files
  create does not reject then: it fulfils with an error object that names the failure, and
  so do the auth calls.
\<close>

definition unreachable :: js_error where
  "unreachable = Error ''TypeError: fetch failed''"

definition down_client :: supabase_client where
  "down_client =
     \<lparr>await_rows = (\<lambda>q. Fulfilled (Reply None (Some unreachable))),
      await_single = (\<lambda>q. Fulfilled (Reply None (Some unreachable))),
      await_insert = (\<lambda>t row. Fulfilled (Reply None (Some unreachable))),
      auth_signUp = (\<lambda>email password meta. Fulfilled (AuthReply None JNull (Some unreachable))),
      auth_signInWithPassword =
        (\<lambda>email password. Fulfilled (AuthReply None JNull (Some unreachable))),
      auth_getUser = (\<lambda>token. Fulfilled (AuthReply None JNull (Some unreachable))),
      auth_signOut = (\<lambda>token. Fulfilled ())\<rparr>"

definition down :: globals where
  "down = demo\<lparr>supabase := down_client\<rparr>"

text \<open>
  A client every call of which throws. This is what the \<^verbatim>\<open>catch\<close> blocks are written
  for; it is not how the external service fails (see \<open>down_client\<close>).
\<close>

definition boom :: js_error where
  "boom = Error ''boom''"

definition rejecting_client :: supabase_client where
  "rejecting_client =
     \<lparr>await_rows = (\<lambda>q. Rejected boom),
      await_single = (\<lambda>q. Rejected boom),
      await_insert = (\<lambda>t row. Rejected boom),
      auth_signUp = (\<lambda>email password meta. Rejected boom),
      auth_signInWithPassword = (\<lambda>email password. Rejected boom),
      auth_getUser = (\<lambda>token. Rejected boom),
      auth_signOut = (\<lambda>token. Rejected boom)\<rparr>"

definition rejecting :: globals where
  "rejecting = demo\<lparr>supabase := rejecting_client\<rparr>"






text \<open>The same deployment a day later, restarted in development mode.\<close>

definition later :: globals where
  "later = demo\<lparr>NODE_ENV := Some ''development'', now_iso := ''2024-05-02T08:30:00.000Z'',
              date_now := 1714638600000, uptime := 73800\<rparr>"

definition demo_registro :: jsobj where
  "demo_registro =
     [(''nombre'', JStr ''Luis''), (''apellidos'', JStr ''Mamani''),
      (''email'', JStr ''luis@example.org''), (''password'', JStr ''secreto''),
      (''codigo_institucion'', JStr ''NORTE''), (''grado'', JStr ''6B'')]"

definition demo_login :: jsobj where
  "demo_login = [(''email'', JStr ''ana@example.org''), (''password'', JStr ''secreto'')]"

section \<open>Registration: the required fields\<close>

lemma some_field_missing:
  assumes "k \<in> set required_fields" and "\<not> truthy (getprop req_body k)"
  shows "\<not> truthy (getprop req_body ''nombre'') \<or> \<not> truthy (getprop req_body ''apellidos'')
       \<or> \<not> truthy (getprop req_body ''email'') \<or> \<not> truthy (getprop req_body ''password'')
       \<or> \<not> truthy (getprop req_body ''codigo_institucion'')
       \<or> \<not> truthy (getprop req_body ''grado'')"
  using assms by (auto simp: required_fields_def)

text \<open>
  Claim C1. A registration in which one of the six required fields is missing or falsy is
  answered 400 with an \<^verbatim>\<open>error\<close> member, and no request at all is sent to the external
  service: no institution lookup, no sign-up. This holds for the handler of each of the
  three files.
\<close>

theorem registro_missing_field_rejected:
  assumes "k \<in> set required_fields" and "\<not> truthy (getprop req_body k)"
  shows "status (post_registro_estudiante g req_body) = 400
       \<and> getprop (body (post_registro_estudiante g req_body)) ''error''
           = JStr ''Todos los campos son requeridos''
       \<and> calls (post_registro_estudiante g req_body) = []
       \<and> status (post_registro_estudiante_part000 g req_body) = 400
       \<and> getprop (body (post_registro_estudiante_part000 g req_body)) ''error''
           = JStr ''Todos los campos son requeridos''
       \<and> calls (post_registro_estudiante_part000 g req_body) = []
       \<and> status (post_registro_estudiante_part001 g req_body) = 400
       \<and> getprop (body (post_registro_estudiante_part001 g req_body)) ''error''
           = JStr ''Todos los campos son requeridos''
       \<and> calls (post_registro_estudiante_part001 g req_body) = []"
proof -
  note missing = some_field_missing [OF assms]
  have a: "post_registro_estudiante g req_body
             = respond 400 [(''error'', JStr ''Todos los campos son requeridos'')] []"
    using missing unfolding post_registro_estudiante_def Let_def by (simp only: if_True)
  have b: "post_registro_estudiante_part000 g req_body
             = respond 400 [(''error'', JStr ''Todos los campos son requeridos'')] []"
    using missing unfolding post_registro_estudiante_part000_def Let_def by (simp only: if_True)
  have c: "post_registro_estudiante_part001 g req_body
             = respond 400 [(''error'', JStr ''Todos los campos son requeridos'')] []"
    using missing unfolding post_registro_estudiante_part001_def Let_def by (simp only: if_True)
  show ?thesis unfolding a b c by (simp add: respond_def getprop_def)
qed

theorem registro_missing_field_rejected_witness:
  "''grado'' \<in> set required_fields
   \<and> \<not> truthy (getprop [(''nombre'', JStr ''Luis''), (''grado'', JStr [])] ''grado'')
   \<and> status (post_registro_estudiante demo [(''nombre'', JStr ''Luis''), (''grado'', JStr [])]) = 400
   \<and> status (post_registro_estudiante_part000 demo
               [(''nombre'', JStr ''Luis''), (''grado'', JStr [])]) = 400
   \<and> calls (post_registro_estudiante_part001 demo
              [(''nombre'', JStr ''Luis''), (''grado'', JStr [])]) = []"
  using registro_missing_field_rejected
          [of "''grado''" "[(''nombre'', JStr ''Luis''), (''grado'', JStr [])]" demo]
  by (simp add: required_fields_def getprop_def)

section \<open>Registration: the institution code\<close>

lemma complete_fields:
  "complete b \<Longrightarrow>
     truthy (getprop b ''nombre'') \<and> truthy (getprop b ''apellidos'')
   \<and> truthy (getprop b ''email'') \<and> truthy (getprop b ''password'')
   \<and> truthy (getprop b ''codigo_institucion'') \<and> truthy (getprop b ''grado'')"
  by (simp add: complete_def required_fields_def)

lemma registro_bad_code:
  assumes "complete req_body"
    and "await_single (supabase g) (institucion_query (getprop req_body ''codigo_institucion''))
           = Fulfilled (Reply inst err)"
    and "err \<noteq> None \<or> inst = None"
  shows "post_registro_estudiante g req_body
           = respond 400 [(''error'', JStr msg_codigo_invalido)]
               [AwaitSingle (institucion_query (getprop req_body ''codigo_institucion''))]"
    and "post_registro_estudiante_part000 g req_body
           = respond 400 [(''error'', JStr msg_codigo_invalido)]
               [AwaitSingle (institucion_query (getprop req_body ''codigo_institucion''))]"
    and "post_registro_estudiante_part001 g req_body
           = respond 400 [(''error'', JStr msg_codigo_invalido)]
               [AwaitSingle (institucion_query (getprop req_body ''codigo_institucion''))]"
proof -
  note f = complete_fields [OF assms(1)]
  show "post_registro_estudiante g req_body
           = respond 400 [(''error'', JStr msg_codigo_invalido)]
               [AwaitSingle (institucion_query (getprop req_body ''codigo_institucion''))]"
    unfolding post_registro_estudiante_def Let_def
    using f assms(3) by (cases err; cases inst) (simp_all add: assms(2))
  show "post_registro_estudiante_part000 g req_body
           = respond 400 [(''error'', JStr msg_codigo_invalido)]
               [AwaitSingle (institucion_query (getprop req_body ''codigo_institucion''))]"
    unfolding post_registro_estudiante_part000_def Let_def
    using f assms(3) by (cases err; cases inst) (simp_all add: assms(2))
  show "post_registro_estudiante_part001 g req_body
           = respond 400 [(''error'', JStr msg_codigo_invalido)]
               [AwaitSingle (institucion_query (getprop req_body ''codigo_institucion''))]"
    unfolding post_registro_estudiante_part001_def Let_def
    using f assms(3) by (cases err; cases inst) (simp_all add: assms(2))
qed

text \<open>
  Claim C2. A registration with all six fields whose institution lookup comes back with an
  error or without a row is answered 400; the lookup is the only request sent, so the auth
  service's sign-up is never called and no account is created. This holds for the handler
  of each of the three files.
\<close>

theorem registro_unknown_code_rejected:
  assumes "complete req_body"
    and "await_single (supabase g) (institucion_query (getprop req_body ''codigo_institucion''))
           = Fulfilled (Reply inst err)"
    and "err \<noteq> None \<or> inst = None"
  shows "status (post_registro_estudiante g req_body) = 400
       \<and> \<not> list_ex is_signUp (calls (post_registro_estudiante g req_body))
       \<and> accounts_created g (post_registro_estudiante g req_body) = []
       \<and> status (post_registro_estudiante_part000 g req_body) = 400
       \<and> \<not> list_ex is_signUp (calls (post_registro_estudiante_part000 g req_body))
       \<and> accounts_created g (post_registro_estudiante_part000 g req_body) = []
       \<and> status (post_registro_estudiante_part001 g req_body) = 400
       \<and> \<not> list_ex is_signUp (calls (post_registro_estudiante_part001 g req_body))
       \<and> accounts_created g (post_registro_estudiante_part001 g req_body) = []"
  unfolding registro_bad_code [OF assms]
  by (simp add: respond_def accounts_created_def)

theorem registro_unknown_code_rejected_witness:
  "complete demo_registro
   \<and> status (post_registro_estudiante
                (demo\<lparr>supabase := demo_client\<lparr>await_single := \<lambda>q. Fulfilled (Reply None (Some no_rows))\<rparr>\<rparr>)
                demo_registro) = 400
   \<and> accounts_created
         (demo\<lparr>supabase := demo_client\<lparr>await_single := \<lambda>q. Fulfilled (Reply None (Some no_rows))\<rparr>\<rparr>)
         (post_registro_estudiante_part001
            (demo\<lparr>supabase := demo_client\<lparr>await_single := \<lambda>q. Fulfilled (Reply None (Some no_rows))\<rparr>\<rparr>)
            demo_registro) = []"
  using registro_unknown_code_rejected [of demo_registro
      "demo\<lparr>supabase := demo_client\<lparr>await_single := \<lambda>q. Fulfilled (Reply None (Some no_rows))\<rparr>\<rparr>"
      None "Some no_rows"]
  by (simp add: complete_def required_fields_def demo_registro_def getprop_def)

section \<open>Registration: the account is created\<close>

lemma registro_created_server:
  assumes "complete req_body"
    and "await_single (supabase g) (institucion_query (getprop req_body ''codigo_institucion''))
           = Fulfilled (Reply (Some inst) None)"
    and "auth_signUp (supabase g) (getprop req_body ''email'') (getprop req_body ''password'')
           (signup_metadata req_body inst) = Fulfilled (AuthReply (Some u) s None)"
  shows "post_registro_estudiante g req_body =
           respond 201
             [(''success'', JBool True),
              (''message'', JStr ''Estudiante registrado exitosamente''),
              (''user'', summary u req_body inst)]
             [AwaitSingle (institucion_query (getprop req_body ''codigo_institucion'')),
              SignUp (getprop req_body ''email'') (getprop req_body ''password'')
                (signup_metadata req_body inst)]"
  unfolding post_registro_estudiante_def Let_def
  using complete_fields [OF assms(1)] assms(3)
  by (simp add: assms(2) signup_metadata_def summary_def)

lemma registro_created_part000:
  assumes "complete req_body"
    and "await_single (supabase g) (institucion_query (getprop req_body ''codigo_institucion''))
           = Fulfilled (Reply (Some inst) None)"
    and "await_single (supabase g) (email_registrado_query (getprop req_body ''email''))
           = Fulfilled (Reply None e0)"
    and "auth_signUp (supabase g) (getprop req_body ''email'') (getprop req_body ''password'')
           (signup_metadata_part000 g req_body inst) = Fulfilled (AuthReply (Some u) s None)"
  shows "post_registro_estudiante_part000 g req_body =
           respond 201
             [(''message'', JStr ''Estudiante registrado exitosamente''),
              (''user'', JObj
                 [(''id'', getprop u ''id''), (''email'', getprop u ''email''),
                  (''nombre'', getprop req_body ''nombre''),
                  (''apellidos'', getprop req_body ''apellidos''),
                  (''rol'', JStr ''estudiante''), (''grado'', getprop req_body ''grado''),
                  (''codigo_estudiante'', JStr (''EST'' @ show_nat (date_now g))),
                  (''institucion'', getprop inst ''nombre'')])]
             [AwaitSingle (institucion_query (getprop req_body ''codigo_institucion'')),
              AwaitSingle (email_registrado_query (getprop req_body ''email'')),
              SignUp (getprop req_body ''email'') (getprop req_body ''password'')
                (signup_metadata_part000 g req_body inst)]"
  unfolding post_registro_estudiante_part000_def Let_def
  using complete_fields [OF assms(1)] assms(4)
  by (simp add: assms(2) assms(3) signup_metadata_part000_def del: show_nat.simps)

lemma registro_created_part001:
  assumes "complete req_body"
    and "await_single (supabase g) (institucion_query (getprop req_body ''codigo_institucion''))
           = Fulfilled (Reply (Some inst) None)"
    and "auth_signUp (supabase g) (getprop req_body ''email'') (getprop req_body ''password'')
           (signup_metadata req_body inst) = Fulfilled (AuthReply (Some u) s None)"
    and "await_insert (supabase g) ''usuarios'' (usuario_row u req_body inst)
           = Fulfilled (Reply dbUser dbError)"
  shows "post_registro_estudiante_part001 g req_body =
           respond 201
             [(''success'', JBool True),
              (''message'', JStr ''Estudiante registrado exitosamente''),
              (''user'', summary u req_body inst)]
             [AwaitSingle (institucion_query (getprop req_body ''codigo_institucion'')),
              SignUp (getprop req_body ''email'') (getprop req_body ''password'')
                (signup_metadata req_body inst),
              AwaitInsert ''usuarios'' (usuario_row u req_body inst)]"
  unfolding post_registro_estudiante_part001_def Let_def
  using complete_fields [OF assms(1)] assms(3) assms(4)
  by (simp add: assms(2) signup_metadata_def usuario_row_def summary_def)

lemmas registered_simps =
  registered_def respond_def accounts_created_def user_member_def opt_member_def getprop_def
  summary_def

text \<open>
  Claim C3. A registration with all six fields, whose institution lookup returns a row and
  whose sign-up is accepted and returns a user, is answered 201, and the \<^verbatim>\<open>user\<close> member
  of the body has the id and the email of the user the sign-up returned and the name of
  the institution found. In \<^verbatim>\<open>part_000\<close> the sign-up is reached when the profile table
  has no row for the email; in \<^verbatim>\<open>part_001\<close> the insert that follows the sign-up has to
  settle, as the query builder's promise does.
\<close>

theorem registro_creates_account:
  assumes "complete req_body"
    and "await_single (supabase g) (institucion_query (getprop req_body ''codigo_institucion''))
           = Fulfilled (Reply (Some inst) None)"
    and "\<And>m. \<exists>u s. auth_signUp (supabase g) (getprop req_body ''email'')
                     (getprop req_body ''password'') m = Fulfilled (AuthReply (Some u) s None)"
  shows "(\<exists>u. registered g (post_registro_estudiante g req_body) u inst)
       \<and> ((\<exists>e0. await_single (supabase g) (email_registrado_query (getprop req_body ''email''))
                   = Fulfilled (Reply None e0))
            \<longrightarrow> (\<exists>u. registered g (post_registro_estudiante_part000 g req_body) u inst))
       \<and> ((\<forall>row. \<exists>r. await_insert (supabase g) ''usuarios'' row = Fulfilled r)
            \<longrightarrow> (\<exists>u. registered g (post_registro_estudiante_part001 g req_body) u inst))"
proof (intro conjI impI)
  from assms(3) obtain u s where
    su: "auth_signUp (supabase g) (getprop req_body ''email'') (getprop req_body ''password'')
           (signup_metadata req_body inst) = Fulfilled (AuthReply (Some u) s None)"
    by blast
  have "registered g (post_registro_estudiante g req_body) u inst"
    unfolding registro_created_server [OF assms(1,2) su]
    using su by (simp add: registered_simps)
  then show "\<exists>u. registered g (post_registro_estudiante g req_body) u inst" ..
next
  assume "\<exists>e0. await_single (supabase g) (email_registrado_query (getprop req_body ''email''))
                   = Fulfilled (Reply None e0)"
  then obtain e0 where
    ex: "await_single (supabase g) (email_registrado_query (getprop req_body ''email''))
           = Fulfilled (Reply None e0)" ..
  from assms(3) obtain u s where
    su: "auth_signUp (supabase g) (getprop req_body ''email'') (getprop req_body ''password'')
           (signup_metadata_part000 g req_body inst) = Fulfilled (AuthReply (Some u) s None)"
    by blast
  have "registered g (post_registro_estudiante_part000 g req_body) u inst"
    unfolding registro_created_part000 [OF assms(1,2) ex su]
    using su by (simp add: registered_simps del: show_nat.simps)
  then show "\<exists>u. registered g (post_registro_estudiante_part000 g req_body) u inst" ..
next
  assume ins: "\<forall>row. \<exists>r. await_insert (supabase g) ''usuarios'' row = Fulfilled r"
  from assms(3) obtain u s where
    su: "auth_signUp (supabase g) (getprop req_body ''email'') (getprop req_body ''password'')
           (signup_metadata req_body inst) = Fulfilled (AuthReply (Some u) s None)"
    by blast
  from ins obtain r where
    "await_insert (supabase g) ''usuarios'' (usuario_row u req_body inst) = Fulfilled r"
    by blast
  then obtain d de where
    db: "await_insert (supabase g) ''usuarios'' (usuario_row u req_body inst)
           = Fulfilled (Reply d de)"
    by (cases r) simp
  have "registered g (post_registro_estudiante_part001 g req_body) u inst"
    unfolding registro_created_part001 [OF assms(1,2) su db]
    using su by (simp add: registered_simps)
  then show "\<exists>u. registered g (post_registro_estudiante_part001 g req_body) u inst" ..
qed

theorem registro_creates_account_witness:
  "complete demo_registro
   \<and> status (post_registro_estudiante demo demo_registro) = 201
   \<and> user_member (post_registro_estudiante demo demo_registro) ''institucion''
       = JStr ''Colegio Norte''
   \<and> status (post_registro_estudiante_part000 demo demo_registro) = 201
   \<and> status (post_registro_estudiante_part001 demo demo_registro) = 201"
proof -
  have h1: "complete demo_registro"
    by (simp add: complete_def required_fields_def demo_registro_def getprop_def)
  have h2: "await_single (supabase demo)
              (institucion_query (getprop demo_registro ''codigo_institucion''))
            = Fulfilled (Reply (Some [(''id'', JNum 1), (''nombre'', JStr ''Colegio Norte'')]) None)"
    by (simp add: demo_def demo_client_def institucion_query_def eq_q_def select_q_def from_q_def)
  have h3: "\<exists>u s. auth_signUp (supabase demo) (getprop demo_registro ''email'')
                    (getprop demo_registro ''password'') m = Fulfilled (AuthReply (Some u) s None)"
    for m by (simp add: demo_def demo_client_def)
  have h4: "\<exists>e0. await_single (supabase demo)
                   (email_registrado_query (getprop demo_registro ''email''))
                 = Fulfilled (Reply None e0)"
    by (simp add: demo_def demo_client_def email_registrado_query_def eq_q_def select_q_def
          from_q_def)
  have h5: "\<forall>row. \<exists>r. await_insert (supabase demo) ''usuarios'' row = Fulfilled r"
    by (simp add: demo_def demo_client_def)
  from registro_creates_account [OF h1 h2 h3] h4 h5 h1 show ?thesis
    by (auto simp: registered_def getprop_def)
qed

text \<open>
  Claim C9. In \<^verbatim>\<open>part_001\<close>, the file that writes a profile row, a sign-up that succeeds
  followed by an insert that comes back with an error is still answered 201 with the
  summary of the created user. The insert is the last request sent: nothing is asked of
  the auth service after it, so the account stays. (The type \<open>call\<close> lists every request
  any of the three files sends; none of them removes an account.)
\<close>

theorem registro_insert_failure_ignored:
  assumes "complete req_body"
    and "await_single (supabase g) (institucion_query (getprop req_body ''codigo_institucion''))
           = Fulfilled (Reply (Some inst) None)"
    and "auth_signUp (supabase g) (getprop req_body ''email'') (getprop req_body ''password'')
           (signup_metadata req_body inst) = Fulfilled (AuthReply (Some u) s None)"
    and "await_insert (supabase g) ''usuarios'' (usuario_row u req_body inst)
           = Fulfilled (Reply dbUser (Some dbError))"
  shows "registered g (post_registro_estudiante_part001 g req_body) u inst
       \<and> getprop (body (post_registro_estudiante_part001 g req_body)) ''user''
           = summary u req_body inst
       \<and> calls (post_registro_estudiante_part001 g req_body)
           = [AwaitSingle (institucion_query (getprop req_body ''codigo_institucion'')),
              SignUp (getprop req_body ''email'') (getprop req_body ''password'')
                (signup_metadata req_body inst),
              AwaitInsert ''usuarios'' (usuario_row u req_body inst)]"
  unfolding registro_created_part001 [OF assms]
  using assms(3) by (simp add: registered_simps)

theorem registro_insert_failure_ignored_witness:
  "complete demo_registro
   \<and> status (post_registro_estudiante_part001
               (demo\<lparr>supabase := demo_client
                  \<lparr>await_insert := \<lambda>t row. Fulfilled (Reply None (Some (Error ''duplicate key'')))\<rparr>\<rparr>)
               demo_registro) = 201
   \<and> accounts_created
        (demo\<lparr>supabase := demo_client
            \<lparr>await_insert := \<lambda>t row. Fulfilled (Reply None (Some (Error ''duplicate key'')))\<rparr>\<rparr>)
        (post_registro_estudiante_part001
               (demo\<lparr>supabase := demo_client
                  \<lparr>await_insert := \<lambda>t row. Fulfilled (Reply None (Some (Error ''duplicate key'')))\<rparr>\<rparr>)
               demo_registro)
       = [[(''id'', JStr ''u-2''), (''email'', JStr ''luis@example.org''),
           (''user_metadata'', JObj (signup_metadata demo_registro
               [(''id'', JNum 1), (''nombre'', JStr ''Colegio Norte'')]))]]"
proof -
  let ?g = "demo\<lparr>supabase := demo_client
              \<lparr>await_insert := \<lambda>t row. Fulfilled (Reply None (Some (Error ''duplicate key'')))\<rparr>\<rparr>"
  let ?inst = "[(''id'', JNum 1), (''nombre'', JStr ''Colegio Norte'')]"
  let ?u = "[(''id'', JStr ''u-2''), (''email'', JStr ''luis@example.org''),
            (''user_metadata'', JObj (signup_metadata demo_registro ?inst))]"
  have h1: "complete demo_registro"
    by (simp add: complete_def required_fields_def demo_registro_def getprop_def)
  have h2: "await_single (supabase ?g)
              (institucion_query (getprop demo_registro ''codigo_institucion''))
            = Fulfilled (Reply (Some ?inst) None)"
    by (simp add: demo_def demo_client_def institucion_query_def eq_q_def select_q_def from_q_def)
  have h3: "auth_signUp (supabase ?g) (getprop demo_registro ''email'')
              (getprop demo_registro ''password'') (signup_metadata demo_registro ?inst)
            = Fulfilled (AuthReply (Some ?u) JNull None)"
    by (simp add: demo_def demo_client_def demo_registro_def getprop_def)
  have h4: "await_insert (supabase ?g) ''usuarios'' (usuario_row ?u demo_registro ?inst)
            = Fulfilled (Reply None (Some (Error ''duplicate key'')))"
    by (simp add: demo_def demo_client_def)
  from registro_insert_failure_ignored [OF h1 h2 h3 h4] h1 show ?thesis
    by (simp add: registered_def)
qed

section \<open>Login\<close>

lemma login_denied:
  assumes "truthy (getprop req_body ''email'')" and "truthy (getprop req_body ''password'')"
    and "auth_signInWithPassword (supabase g) (getprop req_body ''email'')
           (getprop req_body ''password'') = Fulfilled (AuthReply u s (Some e))"
  shows "post_login_part000 g req_body
           = respond 401 [(''error'', JStr msg_credenciales_invalidas)]
               [SignInWithPassword (getprop req_body ''email'') (getprop req_body ''password'')]"
    and "post_login_part001 g req_body
           = respond 401 [(''error'', JStr msg_credenciales_invalidas)]
               [SignInWithPassword (getprop req_body ''email'') (getprop req_body ''password'')]"
  using assms by (simp_all add: post_login_part000_def post_login_part001_def Let_def)

lemma login_part000_ok:
  assumes "truthy (getprop req_body ''email'')" and "truthy (getprop req_body ''password'')"
    and "auth_signInWithPassword (supabase g) (getprop req_body ''email'')
           (getprop req_body ''password'') = Fulfilled (AuthReply u s None)"
    and "await_single (supabase g) (perfil_query_part000 (getprop req_body ''email''))
           = Fulfilled (Reply userData userError)"
  shows "post_login_part000 g req_body
           = respond 200
               [(''message'', JStr ''Login exitoso''),
                (''session'', s),
                (''user'',
                   (case userData of
                      Some ud \<Rightarrow> JObj ud
                    | None \<Rightarrow> (case u of Some au \<Rightarrow> JObj au | None \<Rightarrow> JNull)))]
               [SignInWithPassword (getprop req_body ''email'') (getprop req_body ''password''),
                AwaitSingle (perfil_query_part000 (getprop req_body ''email''))]"
  using assms by (simp add: post_login_part000_def Let_def)

lemma login_part001_from_metadata:
  assumes "truthy (getprop req_body ''email'')" and "truthy (getprop req_body ''password'')"
    and "auth_signInWithPassword (supabase g) (getprop req_body ''email'')
           (getprop req_body ''password'') = Fulfilled (AuthReply (Some u) s None)"
    and "getprop u ''user_metadata'' = JObj md"
    and "await_single (supabase g) (perfil_query_part001 (getprop req_body ''email''))
           = Fulfilled (Reply userData (Some userError))"
  shows "post_login_part001 g req_body
           = respond 200
               [(''success'', JBool True),
                (''message'', JStr ''Login exitoso''),
                (''user'', JObj
                   [(''id'', getprop u ''id''),
                    (''email'', getprop u ''email''),
                    (''nombre'', js_or (getprop md ''nombre'') (JStr ''Usuario'')),
                    (''apellidos'', js_or (getprop md ''apellidos'') (JStr '''')),
                    (''rol'', js_or (getprop md ''rol'') (JStr ''estudiante'')),
                    (''grado'', js_or (getprop md ''grado'') (JStr ''sin-grado''))]),
                (''session'', s)]
               [SignInWithPassword (getprop req_body ''email'') (getprop req_body ''password''),
                AwaitSingle (perfil_query_part001 (getprop req_body ''email''))]"
  using assms by (simp add: post_login_part001_def Let_def member_def opt_member_def)

lemma login_part001_from_profile:
  assumes "truthy (getprop req_body ''email'')" and "truthy (getprop req_body ''password'')"
    and "auth_signInWithPassword (supabase g) (getprop req_body ''email'')
           (getprop req_body ''password'') = Fulfilled (AuthReply u s None)"
    and "await_single (supabase g) (perfil_query_part001 (getprop req_body ''email''))
           = Fulfilled (Reply (Some ud) None)"
  shows "post_login_part001 g req_body
           = respond 200
               [(''success'', JBool True),
                (''message'', JStr ''Login exitoso''),
                (''user'', JObj
                   [(''id'', getprop ud ''id''),
                    (''email'', getprop req_body ''email''),
                    (''nombre'', getprop ud ''nombre''),
                    (''apellidos'', getprop ud ''apellidos''),
                    (''rol'', getprop ud ''rol''),
                    (''grado'', getprop ud ''grado''),
                    (''institucion'',
                       js_or (opt_member (getprop ud ''instituciones'') ''nombre'')
                         (JStr msg_sin_institucion))]),
                (''session'', s)]
               [SignInWithPassword (getprop req_body ''email'') (getprop req_body ''password''),
                AwaitSingle (perfil_query_part001 (getprop req_body ''email''))]"
  using assms by (simp add: post_login_part001_def Let_def)

lemmas login_simps = respond_def session_token_def user_member_def opt_member_def getprop_def

lemma demo_login_fields:
  "truthy (getprop demo_login ''email'')" "truthy (getprop demo_login ''password'')"
  by (simp_all add: demo_login_def getprop_def)

text \<open>
  Claim C4. A login with both email and password present is answered 401 when the auth
  call reports an error. When the auth call succeeds, returning a user and a session whose
  access token is a non-empty string, the answer is 200 and carries that token. The
  follow-up profile lookup is awaited before the answer: in \<^verbatim>\<open>part_000\<close> it has to
  fulfil; in \<^verbatim>\<open>part_001\<close> it has to settle with an error or a row, as the query builder
  does, and the auth user has to carry its metadata object, as the auth service's users do.
\<close>

theorem login_status_and_token:
  assumes "truthy (getprop req_body ''email'')" and "truthy (getprop req_body ''password'')"
  shows "(\<forall>u s e.
            auth_signInWithPassword (supabase g) (getprop req_body ''email'')
              (getprop req_body ''password'') = Fulfilled (AuthReply u s (Some e))
            \<longrightarrow> status (post_login_part000 g req_body) = 401
              \<and> status (post_login_part001 g req_body) = 401)
       \<and> (\<forall>u s tok.
            auth_signInWithPassword (supabase g) (getprop req_body ''email'')
              (getprop req_body ''password'') = Fulfilled (AuthReply (Some u) s None)
            \<and> opt_member s ''access_token'' = JStr tok \<and> tok \<noteq> []
            \<longrightarrow> ((\<exists>r. await_single (supabase g) (perfil_query_part000 (getprop req_body ''email''))
                       = Fulfilled r)
                 \<longrightarrow> status (post_login_part000 g req_body) = 200
                   \<and> session_token (post_login_part000 g req_body) = JStr tok
                   \<and> truthy (session_token (post_login_part000 g req_body)))
              \<and> ((\<exists>md. getprop u ''user_metadata'' = JObj md)
                  \<and> settled (await_single (supabase g)
                               (perfil_query_part001 (getprop req_body ''email'')))
                 \<longrightarrow> status (post_login_part001 g req_body) = 200
                   \<and> session_token (post_login_part001 g req_body) = JStr tok
                   \<and> truthy (session_token (post_login_part001 g req_body))))"
proof (intro conjI allI impI; (elim conjE exE)?)
  fix u s e
  assume "auth_signInWithPassword (supabase g) (getprop req_body ''email'')
            (getprop req_body ''password'') = Fulfilled (AuthReply u s (Some e))"
  note d = login_denied [OF assms this]
  show "status (post_login_part000 g req_body) = 401" unfolding d by (simp add: respond_def)
  show "status (post_login_part001 g req_body) = 401" unfolding d by (simp add: respond_def)
next
  fix u s tok r
  assume si: "auth_signInWithPassword (supabase g) (getprop req_body ''email'')
            (getprop req_body ''password'') = Fulfilled (AuthReply (Some u) s None)"
    and tok: "opt_member s ''access_token'' = JStr tok" "tok \<noteq> []"
    and r: "await_single (supabase g) (perfil_query_part000 (getprop req_body ''email''))
              = Fulfilled r"
  obtain ud ue where "r = Reply ud ue" by (cases r)
  note ok = login_part000_ok [OF assms si r [unfolded this]]
  show "status (post_login_part000 g req_body) = 200" unfolding ok by (simp add: respond_def)
  show t: "session_token (post_login_part000 g req_body) = JStr tok"
    unfolding ok using tok by (simp add: respond_def session_token_def getprop_def)
  show "truthy (session_token (post_login_part000 g req_body))"
    unfolding t using tok by simp
next
  fix u s tok md
  assume si: "auth_signInWithPassword (supabase g) (getprop req_body ''email'')
            (getprop req_body ''password'') = Fulfilled (AuthReply (Some u) s None)"
    and tok: "opt_member s ''access_token'' = JStr tok" "tok \<noteq> []"
    and md: "getprop u ''user_metadata'' = JObj md"
    and st: "settled (await_single (supabase g)
                        (perfil_query_part001 (getprop req_body ''email'')))"
  have both: "status (post_login_part001 g req_body) = 200
            \<and> session_token (post_login_part001 g req_body) = JStr tok"
  proof (cases "await_single (supabase g) (perfil_query_part001 (getprop req_body ''email''))")
    case (Rejected x)
    with st show ?thesis by simp
  next
    case (Fulfilled r)
    obtain ud ue where r: "r = Reply ud ue" by (cases r)
    show ?thesis
    proof (cases ue)
      case None
      with st Fulfilled r obtain row where "ud = Some row" by auto
      with Fulfilled r None
      have "await_single (supabase g) (perfil_query_part001 (getprop req_body ''email''))
              = Fulfilled (Reply (Some row) None)" by simp
      note ok = login_part001_from_profile [OF assms si this]
      show ?thesis unfolding ok using tok
        by (simp add: respond_def session_token_def getprop_def)
    next
      case (Some err)
      with Fulfilled r
      have "await_single (supabase g) (perfil_query_part001 (getprop req_body ''email''))
              = Fulfilled (Reply ud (Some err))" by simp
      note ok = login_part001_from_metadata [OF assms si md this]
      show ?thesis unfolding ok using tok
        by (simp add: respond_def session_token_def getprop_def)
    qed
  qed
  from both show "status (post_login_part001 g req_body) = 200" ..
  from both have t: "session_token (post_login_part001 g req_body) = JStr tok" ..
  then show "session_token (post_login_part001 g req_body) = JStr tok" .
  show "truthy (session_token (post_login_part001 g req_body))"
    unfolding t using tok by simp
qed

theorem login_status_and_token_witness:
  "truthy (getprop demo_login ''email'') \<and> truthy (getprop demo_login ''password'')
   \<and> status (post_login_part000 demo demo_login) = 200
   \<and> session_token (post_login_part000 demo demo_login) = JStr ''jwt''
   \<and> status (post_login_part001 demo demo_login) = 200
   \<and> session_token (post_login_part001 demo demo_login) = JStr ''jwt''
   \<and> status (post_login_part000
                (demo\<lparr>supabase := demo_client\<lparr>auth_signInWithPassword :=
                   \<lambda>e p. Fulfilled (AuthReply None JNull (Some (Error ''Invalid login credentials'')))\<rparr>\<rparr>)
                demo_login) = 401
   \<and> status (post_login_part001
                (demo\<lparr>supabase := demo_client\<lparr>auth_signInWithPassword :=
                   \<lambda>e p. Fulfilled (AuthReply None JNull (Some (Error ''Invalid login credentials'')))\<rparr>\<rparr>)
                demo_login) = 401"
proof -
  let ?bad = "demo\<lparr>supabase := demo_client\<lparr>auth_signInWithPassword :=
                \<lambda>e p. Fulfilled (AuthReply None JNull (Some (Error ''Invalid login credentials'')))\<rparr>\<rparr>"
  have si: "auth_signInWithPassword (supabase demo) (getprop demo_login ''email'')
              (getprop demo_login ''password'') = Fulfilled (AuthReply (Some demo_user) demo_session None)"
    by (simp add: demo_def demo_client_def)
  have tok: "opt_member demo_session ''access_token'' = JStr ''jwt''"
    by (simp add: demo_session_def opt_member_def getprop_def)
  have p0: "\<exists>r. await_single (supabase demo) (perfil_query_part000 (getprop demo_login ''email''))
                = Fulfilled r"
    by (simp add: demo_def demo_client_def)
  have md: "\<exists>md. getprop demo_user ''user_metadata'' = JObj md"
    by (simp add: demo_user_def getprop_def)
  have p1: "settled (await_single (supabase demo)
                       (perfil_query_part001 (getprop demo_login ''email'')))"
    by (simp add: demo_def demo_client_def perfil_query_part001_def eq_q_def select_q_def
          from_q_def)
  have no: "auth_signInWithPassword (supabase ?bad) (getprop demo_login ''email'')
              (getprop demo_login ''password'')
            = Fulfilled (AuthReply None JNull (Some (Error ''Invalid login credentials'')))"
    by (simp add: demo_def)
  note good = login_status_and_token [OF demo_login_fields, of demo, THEN conjunct2, rule_format,
                 of demo_user demo_session "''jwt''"]
  note bad = login_status_and_token [OF demo_login_fields, of ?bad, THEN conjunct1, rule_format,
                OF no]
  from good si tok p0 md p1 bad demo_login_fields show ?thesis by simp
qed

text \<open>
  Claim C7. In \<^verbatim>\<open>part_001\<close>, a successful login whose profile lookup comes back with an
  error (no row for the email) is still answered 200, and the user summary is built from
  the auth user: its id and email, and each of nombre, apellidos, rol and grado from the
  metadata, with a default where the metadata value is falsy. When the lookup returns a
  row without error, the summary is built from the row: its fields take precedence, and
  are used as they are.
\<close>

theorem login_summary_precedence:
  assumes "truthy (getprop req_body ''email'')" and "truthy (getprop req_body ''password'')"
    and "auth_signInWithPassword (supabase g) (getprop req_body ''email'')
           (getprop req_body ''password'') = Fulfilled (AuthReply (Some u) s None)"
    and "getprop u ''user_metadata'' = JObj md"
  shows "(\<forall>ud ue.
            await_single (supabase g) (perfil_query_part001 (getprop req_body ''email''))
              = Fulfilled (Reply ud (Some ue))
            \<longrightarrow> status (post_login_part001 g req_body) = 200
              \<and> user_member (post_login_part001 g req_body) ''id'' = getprop u ''id''
              \<and> user_member (post_login_part001 g req_body) ''email'' = getprop u ''email''
              \<and> user_member (post_login_part001 g req_body) ''nombre''
                  = js_or (getprop md ''nombre'') (JStr ''Usuario'')
              \<and> user_member (post_login_part001 g req_body) ''apellidos''
                  = js_or (getprop md ''apellidos'') (JStr [])
              \<and> user_member (post_login_part001 g req_body) ''rol''
                  = js_or (getprop md ''rol'') (JStr ''estudiante'')
              \<and> user_member (post_login_part001 g req_body) ''grado''
                  = js_or (getprop md ''grado'') (JStr ''sin-grado''))
       \<and> (\<forall>row.
            await_single (supabase g) (perfil_query_part001 (getprop req_body ''email''))
              = Fulfilled (Reply (Some row) None)
            \<longrightarrow> status (post_login_part001 g req_body) = 200
              \<and> user_member (post_login_part001 g req_body) ''id'' = getprop row ''id''
              \<and> user_member (post_login_part001 g req_body) ''email'' = getprop req_body ''email''
              \<and> user_member (post_login_part001 g req_body) ''nombre'' = getprop row ''nombre''
              \<and> user_member (post_login_part001 g req_body) ''apellidos''
                  = getprop row ''apellidos''
              \<and> user_member (post_login_part001 g req_body) ''rol'' = getprop row ''rol''
              \<and> user_member (post_login_part001 g req_body) ''grado'' = getprop row ''grado'')"
proof (rule conjI; intro allI impI)
  fix ud ue
  assume "await_single (supabase g) (perfil_query_part001 (getprop req_body ''email''))
            = Fulfilled (Reply ud (Some ue))"
  note r = login_part001_from_metadata [OF assms this]
  show "status (post_login_part001 g req_body) = 200
      \<and> user_member (post_login_part001 g req_body) ''id'' = getprop u ''id''
      \<and> user_member (post_login_part001 g req_body) ''email'' = getprop u ''email''
      \<and> user_member (post_login_part001 g req_body) ''nombre''
          = js_or (getprop md ''nombre'') (JStr ''Usuario'')
      \<and> user_member (post_login_part001 g req_body) ''apellidos''
          = js_or (getprop md ''apellidos'') (JStr [])
      \<and> user_member (post_login_part001 g req_body) ''rol''
          = js_or (getprop md ''rol'') (JStr ''estudiante'')
      \<and> user_member (post_login_part001 g req_body) ''grado''
          = js_or (getprop md ''grado'') (JStr ''sin-grado'')"
    unfolding r by (simp add: login_simps)
next
  fix row
  assume "await_single (supabase g) (perfil_query_part001 (getprop req_body ''email''))
            = Fulfilled (Reply (Some row) None)"
  note r = login_part001_from_profile [OF assms(1-3) this]
  show "status (post_login_part001 g req_body) = 200
      \<and> user_member (post_login_part001 g req_body) ''id'' = getprop row ''id''
      \<and> user_member (post_login_part001 g req_body) ''email'' = getprop req_body ''email''
      \<and> user_member (post_login_part001 g req_body) ''nombre'' = getprop row ''nombre''
      \<and> user_member (post_login_part001 g req_body) ''apellidos'' = getprop row ''apellidos''
      \<and> user_member (post_login_part001 g req_body) ''rol'' = getprop row ''rol''
      \<and> user_member (post_login_part001 g req_body) ''grado'' = getprop row ''grado''"
    unfolding r by (simp add: login_simps)
qed

theorem login_summary_precedence_witness:
  "truthy (getprop demo_login ''email'') \<and> truthy (getprop demo_login ''password'')
   \<and> status (post_login_part001 demo demo_login) = 200
   \<and> user_member (post_login_part001 demo demo_login) ''nombre'' = JStr ''Ana''
   \<and> user_member (post_login_part001 demo demo_login) ''rol'' = JStr ''estudiante''
   \<and> status (post_login_part001
                (demo\<lparr>supabase := demo_client\<lparr>await_single :=
                   \<lambda>q. Fulfilled (Reply (Some demo_profile) None)\<rparr>\<rparr>) demo_login) = 200
   \<and> user_member (post_login_part001
                (demo\<lparr>supabase := demo_client\<lparr>await_single :=
                   \<lambda>q. Fulfilled (Reply (Some demo_profile) None)\<rparr>\<rparr>) demo_login) ''nombre''
       = JStr ''Ana Maria''
   \<and> user_member (post_login_part001
                (demo\<lparr>supabase := demo_client\<lparr>await_single :=
                   \<lambda>q. Fulfilled (Reply (Some demo_profile) None)\<rparr>\<rparr>) demo_login) ''grado''
       = JNull"
proof -
  let ?g = "demo\<lparr>supabase := demo_client\<lparr>await_single :=
              \<lambda>q. Fulfilled (Reply (Some demo_profile) None)\<rparr>\<rparr>"
  have si: "auth_signInWithPassword (supabase demo) (getprop demo_login ''email'')
              (getprop demo_login ''password'') = Fulfilled (AuthReply (Some demo_user) demo_session None)"
    by (simp add: demo_def demo_client_def)
  have si': "auth_signInWithPassword (supabase ?g) (getprop demo_login ''email'')
              (getprop demo_login ''password'') = Fulfilled (AuthReply (Some demo_user) demo_session None)"
    by (simp add: demo_def demo_client_def)
  have md: "getprop demo_user ''user_metadata''
              = JObj [(''nombre'', JStr ''Ana''), (''grado'', JStr ''5A'')]"
    by (simp add: demo_user_def getprop_def)
  have none: "await_single (supabase demo) (perfil_query_part001 (getprop demo_login ''email''))
                = Fulfilled (Reply None (Some no_rows))"
    by (simp add: demo_def demo_client_def perfil_query_part001_def eq_q_def select_q_def
          from_q_def)
  have row: "await_single (supabase ?g) (perfil_query_part001 (getprop demo_login ''email''))
               = Fulfilled (Reply (Some demo_profile) None)"
    by (simp add: demo_def)
  note a = login_summary_precedence [OF demo_login_fields si md, THEN conjunct1, rule_format,
             OF none]
  note b = login_summary_precedence [OF demo_login_fields si' md, THEN conjunct2, rule_format,
             OF row]
  from a b demo_login_fields show ?thesis
    by (simp add: js_or_def getprop_def demo_profile_def)
qed

text \<open>
  Two companions to C7. \<^verbatim>\<open>GET /api/auth/me\<close> applies the precedence field by field:
  the profile value, else the metadata value, else the default. The login of \<^verbatim>\<open>part_000\<close>
  answers 200 with the profile row when there is one and with the auth user object
  otherwise.
\<close>

lemma profile_or_metadata_object:
  "profile_or_metadata p (JObj md) k d = Inr (js_or (js_or p (getprop md k)) d)"
  by (simp add: profile_or_metadata_def member_def js_or_def)

lemma me_field_precedence:
  assumes "h \<noteq> []"
    and "auth_getUser (supabase g) (replace_first ''Bearer '' [] h)
           = Fulfilled (AuthReply (Some u) s None)"
    and "getprop u ''user_metadata'' = JObj md"
    and "await_single (supabase g) (perfil_me_query (getprop u ''id''))
           = Fulfilled (Reply userData userError)"
  shows "status (get_me_part001 g (Some h)) = 200
       \<and> user_member (get_me_part001 g (Some h)) ''nombre''
           = js_or (js_or (profile_field userData ''nombre'') (getprop md ''nombre''))
               (JStr ''Usuario'')
       \<and> user_member (get_me_part001 g (Some h)) ''apellidos''
           = js_or (js_or (profile_field userData ''apellidos'') (getprop md ''apellidos''))
               (JStr [])
       \<and> user_member (get_me_part001 g (Some h)) ''rol''
           = js_or (js_or (profile_field userData ''rol'') (getprop md ''rol''))
               (JStr ''estudiante'')
       \<and> user_member (get_me_part001 g (Some h)) ''grado''
           = js_or (js_or (profile_field userData ''grado'') (getprop md ''grado''))
               (JStr ''sin-grado'')"
  using assms
  by (simp add: get_me_part001_def Let_def profile_or_metadata_object profile_field_def
        login_simps del: replace_first.simps)

lemma login_part000_user:
  assumes "truthy (getprop req_body ''email'')" and "truthy (getprop req_body ''password'')"
    and "auth_signInWithPassword (supabase g) (getprop req_body ''email'')
           (getprop req_body ''password'') = Fulfilled (AuthReply (Some u) s None)"
    and "await_single (supabase g) (perfil_query_part000 (getprop req_body ''email''))
           = Fulfilled (Reply userData userError)"
  shows "status (post_login_part000 g req_body) = 200
       \<and> getprop (body (post_login_part000 g req_body)) ''user''
           = (case userData of Some row \<Rightarrow> JObj row | None \<Rightarrow> JObj u)"
  unfolding login_part000_ok [OF assms]
  by (cases userData) (simp_all add: respond_def getprop_def)

section \<open>The list endpoints: status, count, active rows, order\<close>



lemmas query_simps =
  from_q_def select_q_def eq_q_def order_q_def limit_q_def selects_column_def




lemma cursos_query_shape:
  "(''activo'', JBool True) \<in> set (filters cursos_query)"
  "selects_column cursos_query ''activo''"
  "ordering cursos_query = Some ''orden_curso''"
  "(''activo'', JBool True) \<in> set (filters (eq_q ''nivel_id'' v cursos_query))"
  "selects_column (eq_q ''nivel_id'' v cursos_query) ''activo''"
  "ordering (eq_q ''nivel_id'' v cursos_query) = Some ''orden_curso''"
  by (simp_all add: cursos_query_def query_simps)

lemma instituciones_query_shape:
  "filters instituciones_query = [(''activo'', JBool True)]"
  "columns instituciones_query = [Column ''id'', Column ''nombre'', Column ''codigo_acceso'']"
  "ordering instituciones_query = None"
  by (simp_all add: instituciones_query_def query_simps)

lemma list_ok:
  assumes "await_rows (supabase g) q = Fulfilled (Reply (Some rows) None)"
  shows "q = niveles_query \<Longrightarrow> get_niveles g =
           respond 200 [(''success'', JBool True), (''count'', JNum (of_nat (length rows))),
                        (''niveles'', JArr (map JObj rows))] [AwaitRows q]"
    and "q = cursos_nivel_query n \<Longrightarrow> get_cursos_nivelId g n =
           respond 200 [(''success'', JBool True), (''count'', JNum (of_nat (length rows))),
                        (''cursos'', JArr (map JObj rows))] [AwaitRows q]"
    and "q = lecciones_query c \<Longrightarrow> get_lecciones g c =
           respond 200 [(''success'', JBool True), (''count'', JNum (of_nat (length rows))),
                        (''lecciones'', JArr (map JObj rows))] [AwaitRows q]"
    and "q = instituciones_query \<Longrightarrow> get_instituciones g =
           respond 200 [(''success'', JBool True), (''count'', JNum (of_nat (length rows))),
                        (''instituciones'', JArr (map JObj rows))] [AwaitRows q]"
    and "await_cursos g q sent =
           respond 200 [(''success'', JBool True), (''count'', JNum (of_nat (length rows))),
                        (''cursos'', JArr (map JObj rows))] (sent @ [AwaitRows q])"
  using assms
  by (simp_all add: get_niveles_def get_cursos_nivelId_def get_lecciones_def
        get_instituciones_def await_cursos_def Let_def)


lemma calls_await_cursos: "calls (await_cursos g q sent) = sent @ [AwaitRows q]"
  by (simp add: await_cursos_def Let_def respond_def
        split: promise.split reply.split option.split)


lemmas lists_simps = delivers_def counts_def respond_def getprop_def

lemma demo_answers:
  "answered demo niveles_query [demo_nivel]"
  "answered demo (cursos_nivel_query ''1'') [demo_curso]"
  "answered demo (lecciones_query ''7'') [demo_leccion]"
  "answered demo cursos_query [demo_curso]"
  "answered demo instituciones_query demo_instituciones"
  by (simp_all add: answered_def honours_def ascending_by_def demo_def demo_client_def
        niveles_query_def cursos_nivel_query_def lecciones_query_def cursos_query_def
        instituciones_query_def query_simps demo_nivel_def demo_curso_def demo_leccion_def
        getprop_def)














section \<open>All courses: a level name that is not found\<close>

lemma await_cursos_sent:
  "status (await_cursos g q sent) = status (await_cursos g q [])"
  "body (await_cursos g q sent) = body (await_cursos g q [])"
  by (simp_all add: await_cursos_def Let_def respond_def
        split: promise.split reply.split option.split)

lemma cursos_no_level:
  assumes "truthy nivel"
    and "await_single (supabase g) (nivel_por_nombre_query nivel) = Fulfilled (Reply None nivelError)"
  shows "get_cursos_part001 g nivel
           = await_cursos g cursos_query [AwaitSingle (nivel_por_nombre_query nivel)]"
  using assms by (simp add: get_cursos_part001_def Let_def)

lemma cursos_unfiltered: "get_cursos_part001 g JUndefined = await_cursos g cursos_query []"
  by (simp add: get_cursos_part001_def)

text \<open>
  Claim C10. When \<^verbatim>\<open>GET /api/cursos\<close> carries a \<^verbatim>\<open>nivel\<close> parameter and the lookup of
  that level by name returns no row, the filter is dropped without notice: the request
  for courses goes out as first built, filtered on \<^verbatim>\<open>activo\<close> only, and status and body
  are those of a request without the parameter. When that request for courses succeeds,
  the answer is 200 with its rows and their count.
\<close>

theorem cursos_unknown_level_dropped:
  assumes "truthy nivel"
    and "await_single (supabase g) (nivel_por_nombre_query nivel) = Fulfilled (Reply None nivelError)"
  shows "status (get_cursos_part001 g nivel) = status (get_cursos_part001 g JUndefined)
       \<and> body (get_cursos_part001 g nivel) = body (get_cursos_part001 g JUndefined)
       \<and> last (calls (get_cursos_part001 g nivel)) = AwaitRows cursos_query
       \<and> filters cursos_query = [(''activo'', JBool True)]
       \<and> (\<forall>rows. await_rows (supabase g) cursos_query = Fulfilled (Reply (Some rows) None)
             \<longrightarrow> delivers (get_cursos_part001 g nivel) ''cursos'' rows
               \<and> counts (get_cursos_part001 g nivel) rows)"
proof (intro conjI allI impI)
  note e = cursos_no_level [OF assms]
  show "status (get_cursos_part001 g nivel) = status (get_cursos_part001 g JUndefined)"
    unfolding e cursos_unfiltered by (rule await_cursos_sent)
  show "body (get_cursos_part001 g nivel) = body (get_cursos_part001 g JUndefined)"
    unfolding e cursos_unfiltered by (rule await_cursos_sent)
  show "last (calls (get_cursos_part001 g nivel)) = AwaitRows cursos_query"
    unfolding e by (simp add: calls_await_cursos)
  show "filters cursos_query = [(''activo'', JBool True)]"
    by (simp add: cursos_query_def query_simps)
  fix rows
  assume r: "await_rows (supabase g) cursos_query = Fulfilled (Reply (Some rows) None)"
  show "delivers (get_cursos_part001 g nivel) ''cursos'' rows"
    unfolding e list_ok(5) [OF r] by (simp add: lists_simps)
  show "counts (get_cursos_part001 g nivel) rows"
    unfolding e list_ok(5) [OF r] by (simp add: lists_simps)
qed

theorem cursos_unknown_level_dropped_witness:
  "truthy (JStr ''Secundaria'')
   \<and> status (get_cursos_part001 demo (JStr ''Secundaria'')) = 200
   \<and> body (get_cursos_part001 demo (JStr ''Secundaria'')) = body (get_cursos_part001 demo JUndefined)
   \<and> delivers (get_cursos_part001 demo (JStr ''Secundaria'')) ''cursos'' [demo_curso]"
proof -
  have h: "await_single (supabase demo) (nivel_por_nombre_query (JStr ''Secundaria''))
             = Fulfilled (Reply None (Some no_rows))"
    by (simp add: demo_def demo_client_def nivel_por_nombre_query_def query_simps)
  have r: "await_rows (supabase demo) cursos_query = Fulfilled (Reply (Some [demo_curso]) None)"
    using demo_answers(4) by (simp add: answered_def)
  have t: "truthy (JStr ''Secundaria'')" by simp
  note c = cursos_unknown_level_dropped [OF t h]
  from c r have d: "delivers (get_cursos_part001 demo (JStr ''Secundaria'')) ''cursos'' [demo_curso]"
    by blast
  then have "status (get_cursos_part001 demo (JStr ''Secundaria'')) = 200"
    by (simp add: delivers_def)
  with c d t show ?thesis by blast
qed

section \<open>The list endpoints: repeatable answers\<close>

text \<open>
  Claim C8. Each list handler is a function of what the external service answers to the
  requests it sends: two runs that get the same answer give the same response, and so the
  same array, whatever else differs between them (the environment, the clock). For all
  courses the answers are those to the level lookup and to the request for rows.
\<close>

theorem list_endpoints_deterministic:
  "(await_rows (supabase g) niveles_query = await_rows (supabase g') niveles_query
      \<longrightarrow> get_niveles g = get_niveles g' \<and> get_niveles_part000 g = get_niveles_part000 g')
   \<and> (await_rows (supabase g) (cursos_nivel_query nivelId)
        = await_rows (supabase g') (cursos_nivel_query nivelId)
      \<longrightarrow> get_cursos_nivelId g nivelId = get_cursos_nivelId g' nivelId
        \<and> get_cursos_nivelId_part000 g nivelId = get_cursos_nivelId_part000 g' nivelId)
   \<and> (await_rows (supabase g) (lecciones_query cursoId)
        = await_rows (supabase g') (lecciones_query cursoId)
      \<longrightarrow> get_lecciones g cursoId = get_lecciones g' cursoId
        \<and> get_lecciones_part000 g cursoId = get_lecciones_part000 g' cursoId)
   \<and> (await_rows (supabase g) instituciones_query = await_rows (supabase g') instituciones_query
      \<longrightarrow> get_instituciones g = get_instituciones g'
        \<and> get_instituciones_part000 g = get_instituciones_part000 g')
   \<and> (await_single (supabase g) (nivel_por_nombre_query nivel)
        = await_single (supabase g') (nivel_por_nombre_query nivel)
       \<and> (\<forall>q. await_rows (supabase g) q = await_rows (supabase g') q)
      \<longrightarrow> get_cursos_part001 g nivel = get_cursos_part001 g' nivel)"
proof -
  have c: "get_cursos_part001 g nivel = get_cursos_part001 g' nivel"
    if "await_single (supabase g) (nivel_por_nombre_query nivel)
          = await_single (supabase g') (nivel_por_nombre_query nivel)"
      and "\<forall>q. await_rows (supabase g) q = await_rows (supabase g') q"
  proof -
    from that(2) have t: "await_cursos g q sent = await_cursos g' q sent" for q sent
      by (simp add: await_cursos_def)
    show ?thesis
      by (simp add: get_cursos_part001_def Let_def that(1) t
            split: promise.split reply.split option.split)
  qed
  then show ?thesis
    by (simp add: get_niveles_def get_niveles_part000_def get_cursos_nivelId_def
          get_cursos_nivelId_part000_def get_lecciones_def get_lecciones_part000_def
          get_instituciones_def get_instituciones_part000_def Let_def)
qed

theorem list_endpoints_deterministic_witness:
  "await_rows (supabase demo) niveles_query = await_rows (supabase later) niveles_query
   \<and> get_niveles demo = get_niveles later
   \<and> await_rows (supabase demo) (cursos_nivel_query ''1'')
       = await_rows (supabase later) (cursos_nivel_query ''1'')
   \<and> get_cursos_nivelId_part000 demo ''1'' = get_cursos_nivelId_part000 later ''1''
   \<and> await_rows (supabase demo) (lecciones_query ''7'')
       = await_rows (supabase later) (lecciones_query ''7'')
   \<and> get_lecciones demo ''7'' = get_lecciones later ''7''
   \<and> await_rows (supabase demo) instituciones_query
       = await_rows (supabase later) instituciones_query
   \<and> get_instituciones demo = get_instituciones later
   \<and> await_single (supabase demo) (nivel_por_nombre_query (JStr ''Primaria''))
       = await_single (supabase later) (nivel_por_nombre_query (JStr ''Primaria''))
   \<and> get_cursos_part001 demo (JStr ''Primaria'') = get_cursos_part001 later (JStr ''Primaria'')"
proof -
  have s: "supabase later = supabase demo" by (simp add: later_def)
  from list_endpoints_deterministic [of demo later "''1''" "''7''" "JStr ''Primaria''"]
  show ?thesis unfolding s by simp
qed

end
